theory Spec2Isabelle
  imports Main
begin

section \<open>JavaScript values\<close>

text \<open>
  The component is written against dynamically typed values: a \<open>Value\<close> is a string or a
  Delta object, a \<open>Range\<close> is an object or \<open>null\<close>, props are looked up by key, and
  \<open>isDelta\<close> duck-types on the presence of a truthy \<open>ops\<close> property. Values are therefore
  modelled as trees. Objects and arrays carry the address of their allocation, which is
  what \<open>===\<close> compares; numbers are integers (indices and lengths are the only numbers the
  component handles); a function is known by its identity only.
\<close>

datatype jsval =
    JUndefined
  | JNull
  | JBool bool
  | JNum int
  | JStr string
  | JFun nat
  | JArr nat "jsval list"
  | JObj nat "(string \<times> jsval) list"

text \<open>JavaScript truthiness, as used by \<open>&&\<close>, \<open>!\<close> and \<open>if\<close>.\<close>

fun truthy :: "jsval \<Rightarrow> bool" where
  "truthy JUndefined = False"
| "truthy JNull = False"
| "truthy (JBool b) = b"
| "truthy (JNum n) = (n \<noteq> 0)"
| "truthy (JStr s) = (s \<noteq> [])"
| "truthy (JFun f) = True"
| "truthy (JArr a xs) = True"
| "truthy (JObj a kvs) = True"

text \<open>\<open>v == null\<close>, the test behind \<open>??\<close> and \<open>?.\<close>.\<close>

fun nullish :: "jsval \<Rightarrow> bool" where
  "nullish JUndefined = True"
| "nullish JNull = True"
| "nullish v = False"

text \<open>\<open>a ?? b\<close>.\<close>

definition coalesce :: "jsval \<Rightarrow> jsval \<Rightarrow> jsval" where
  "coalesce a b = (if nullish a then b else a)"

text \<open>
  Property read \<open>v.k\<close> on a value that is not nullish: an own property of an object, and
  \<open>undefined\<close> on everything else (none of the keys read by the component is defined on
  the prototypes of strings, numbers, functions or arrays).
\<close>

fun member :: "jsval \<Rightarrow> string \<Rightarrow> jsval" where
  "member (JObj a kvs) k = (case map_of kvs k of Some v \<Rightarrow> v | None \<Rightarrow> JUndefined)"
| "member v k = JUndefined"

text \<open>Index read \<open>v[0]\<close> on a value that is not nullish.\<close>

fun index0 :: "jsval \<Rightarrow> jsval" where
  "index0 (JArr a []) = JUndefined"
| "index0 (JArr a (x # xs)) = x"
| "index0 (JObj a kvs) = (case map_of kvs ''0'' of Some v \<Rightarrow> v | None \<Rightarrow> JUndefined)"
| "index0 (JStr []) = JUndefined"
| "index0 (JStr (c # cs)) = JStr [c]"
| "index0 v = JUndefined"

text \<open>\<open>a === b\<close>: primitives by value, functions, arrays and objects by identity.\<close>

fun addressOf :: "jsval \<Rightarrow> nat option" where
  "addressOf (JArr a xs) = Some a"
| "addressOf (JObj a kvs) = Some a"
| "addressOf v = None"

definition strictEq :: "jsval \<Rightarrow> jsval \<Rightarrow> bool" where
  "strictEq v w =
     (case (addressOf v, addressOf w) of
        (Some a, Some b) \<Rightarrow> a = b
      | (None, None) \<Rightarrow> v = w
      | _ \<Rightarrow> False)"

text \<open>
  lodash's \<open>isEqual\<close>: deep equality. Primitives and functions compare as with \<open>===\<close>;
  arrays compare element by element; objects compare as sets of keys with deeply equal
  values, whatever the order of the keys. Addresses are ignored. The properties of an
  object are an association list read with \<open>map_of\<close>, so that an entry hidden by an
  earlier one with the same key is no property of the object.
\<close>

fun isEqual :: "jsval \<Rightarrow> jsval \<Rightarrow> bool" where
  "isEqual (JArr a xs) (JArr b ys) = list_all2 isEqual xs ys"
| "isEqual (JObj a kvs) (JObj b kws) =
     (set (map fst kvs) = set (map fst kws) \<and>
      list_all (\<lambda>(k, v). map_of kvs k = Some v \<longrightarrow>
                  (case map_of kws k of Some w \<Rightarrow> isEqual v w | None \<Rightarrow> False)) kvs)"
| "isEqual v w = (v = w)"

section \<open>The Value Synchronizer\<close>

text \<open>\<open>isDelta(value)\<close> is \<open>value && value.ops\<close>, read as a condition.\<close>

definition isDelta :: "jsval \<Rightarrow> bool" where
  "isDelta v = (truthy v \<and> truthy (member v ''ops''))"

definition isEqualValue :: "jsval \<Rightarrow> jsval \<Rightarrow> bool" where
  "isEqualValue v nextValue =
     (if isDelta v \<and> isDelta nextValue
      then isEqual (member v ''ops'') (member nextValue ''ops'')
      else isEqual v nextValue)"

section \<open>Data model of the component\<close>

text \<open>
  Props are a JavaScript object: \<open>'k' in props\<close> is membership in the domain, and
  \<open>props.k\<close> of a missing key is \<open>undefined\<close>.
\<close>

type_synonym props = "string \<rightharpoonup> jsval"

definition getp :: "props \<Rightarrow> string \<Rightarrow> jsval" where
  "getp p k = (case p k of Some v \<Rightarrow> v | None \<Rightarrow> JUndefined)"

definition hasp :: "props \<Rightarrow> string \<Rightarrow> bool" where
  "hasp p k = (p k \<noteq> None)"

definition dirtyProps :: "string list" where
  "dirtyProps = [''modules'', ''formats'', ''bounds'', ''theme'', ''children'']"

definition cleanProps :: "string list" where
  "cleanProps = [''id'', ''className'', ''style'', ''readOnly'', ''placeholder'',
     ''tabIndex'', ''onChange'', ''onChangeSelection'', ''onFocus'', ''onBlur'',
     ''onKeyPress'', ''onKeyDown'', ''onKeyUp'']"

text \<open>\<open>ReactQuillState\<close>.\<close>

record rqstate =
  generation :: int
  stateValue :: jsval
  stateSelection :: jsval

text \<open>
  \<open>this.setState(partial)\<close> called from a lifecycle method or an event handler does not
  change \<open>this.state\<close> at once: React queues the partial state and merges it when it next
  updates the component. The queue is the field \<open>pending\<close> below.
\<close>

datatype patch = SetGeneration int | SetValue jsval | SetSelection jsval

fun applyPatch :: "rqstate \<Rightarrow> patch \<Rightarrow> rqstate" where
  "applyPatch st (SetGeneration g) = st\<lparr>generation := g\<rparr>"
| "applyPatch st (SetValue v) = st\<lparr>stateValue := v\<rparr>"
| "applyPatch st (SetSelection r) = st\<lparr>stateSelection := r\<rparr>"

text \<open>
  A Quill instance, as far as the component consumes it: the document and selection that
  \<open>getContents\<close>/\<open>setContents\<close> and \<open>getSelection\<close>/\<open>setSelection\<close> read and write,
  whether it has focus, whether it is enabled, and whether the component's handlers are
  subscribed to its events. The document is kept as the value last loaded into the
  instance, a Delta or markup; how Quill converts and renders it is not modelled.
\<close>

record quill =
  container :: nat
  config :: "(string \<times> jsval) list"
  contents :: jsval
  selection :: jsval
  hasFocus :: bool
  enabled :: bool
  hooked :: bool

text \<open>What \<open>ReactDOM.findDOMNode\<close> resolves the editing-area ref to.\<close>

record domnode =
  nodeId :: nat
  nodeType :: nat

datatype reactInstance = ReactInstance "domnode option"

text \<open>The \<open>UnprivilegedEditor\<close> passed along with an event: what its getters return.\<close>

record unprivilegedEditor =
  getContents :: jsval
  getHTML :: jsval

text \<open>
  What the component does to its collaborators, in order: calls on Quill instances
  (named by their position in the store) and calls of the callbacks passed as props.
\<close>

datatype event =
    Created nat nat
  | Unhooked nat
  | ContentsSet nat jsval
  | ValuePushed nat jsval
  | SelectionSet nat jsval
  | FocusCalled nat
  | ReadOnlySet nat jsval
  | Called string jsval "jsval list" unprivilegedEditor

datatype error =
    ToolbarDeprecated
  | CustomToolbar
  | CustomFormats
  | StylesDeprecated
  | PollIntervalDeprecated
  | MultipleChildren
  | NotASingleElement
  | TextareaChild
  | DeltaAsValue
  | AlreadyInstantiated
  | DestroyBeforeInstantiation
  | NonInstantiatedEditor
  | MissingEditingArea
  | NoElementForEditingArea
  | TextNodeEditingArea
  | TypeError

text \<open>
  The component instance: its props and state, the fields the class declares
  (\<open>editor\<close>, \<open>editingArea\<close>, \<open>lastDeltaChangeSet\<close>, \<open>regenerationSnapshot\<close>), the store of
  all Quill instances ever created (\<open>editor\<close> holds the position of the live one), and the
  trace of events.
\<close>

record component =
  props :: props
  state :: rqstate
  pending :: "patch list"
  editor :: "nat option"
  editingArea :: "reactInstance option"
  lastDeltaChangeSet :: jsval
  regenerationSnapshot :: "(jsval \<times> jsval) option"
  quills :: "nat \<Rightarrow> quill"
  allocated :: nat
  trace :: "event list"

definition setState :: "component \<Rightarrow> patch \<Rightarrow> component" where
  "setState c p = c\<lparr>pending := pending c @ [p]\<rparr>"

definition emit :: "component \<Rightarrow> event \<Rightarrow> component" where
  "emit c ev = c\<lparr>trace := trace c @ [ev]\<rparr>"

text \<open>\<open>this.props.cb?.(args)\<close>: nothing when the prop is nullish, a call otherwise.\<close>

definition callProp ::
  "component \<Rightarrow> string \<Rightarrow> jsval list \<Rightarrow> unprivilegedEditor \<Rightarrow> error + component" where
  "callProp c name args ed =
     (let f = getp (props c) name in
      if nullish f then Inr c
      else case f of JFun i \<Rightarrow> Inr (emit c (Called name f args ed)) | _ \<Rightarrow> Inl TypeError)"

section \<open>The Quill instance and the mixin helpers\<close>

text \<open>Methods of a Quill instance, on the instance at position \<open>i\<close> of the store.\<close>

definition quillGetContents :: "component \<Rightarrow> nat \<Rightarrow> jsval" where
  "quillGetContents c i = contents (quills c i)"

definition quillGetSelection :: "component \<Rightarrow> nat \<Rightarrow> jsval" where
  "quillGetSelection c i = selection (quills c i)"

definition quillSetContents :: "component \<Rightarrow> nat \<Rightarrow> jsval \<Rightarrow> component" where
  "quillSetContents c i d =
     emit (c\<lparr>quills := (quills c)(i := (quills c i)\<lparr>contents := d\<rparr>)\<rparr>) (ContentsSet i d)"

definition quillSetSelection :: "component \<Rightarrow> nat \<Rightarrow> jsval \<Rightarrow> component" where
  "quillSetSelection c i r =
     emit (c\<lparr>quills := (quills c)(i := (quills c i)\<lparr>selection := r\<rparr>)\<rparr>) (SelectionSet i r)"

definition quillFocus :: "component \<Rightarrow> nat \<Rightarrow> component" where
  "quillFocus c i =
     emit (c\<lparr>quills := (quills c)(i := (quills c i)\<lparr>hasFocus := True\<rparr>)\<rparr>) (FocusCalled i)"

text \<open>The document of an instance into which nothing has been loaded yet.\<close>

definition blankDocument :: jsval where
  "blankDocument = JObj 0 [(''ops'', JArr 0 [])]"

text \<open>
  Modelled from the spec: \<open>createEditor\<close> of the mixin, which is not among the sources.
  The spec has it as \<open>create(container, options) -> instance\<close>, after which the
  component is subscribed to the instance's change and selection-change events. The new
  instance takes the next free position of the store.
\<close>

definition createEditor ::
  "component \<Rightarrow> domnode \<Rightarrow> (string \<times> jsval) list \<Rightarrow> component \<times> nat" where
  "createEditor c el cfg =
     (let i = allocated c;
          q = \<lparr>container = nodeId el, config = cfg, contents = blankDocument,
               selection = JNull, hasFocus = False,
               enabled = (\<not> truthy (case map_of cfg ''readOnly'' of Some v \<Rightarrow> v
                                     | None \<Rightarrow> JUndefined)),
               hooked = True\<rparr>
      in (emit (c\<lparr>quills := (quills c)(i := q), allocated := Suc i\<rparr>)
            (Created i (nodeId el)), i))"

text \<open>
  Modelled from the spec: \<open>unhookEditor\<close> of the mixin, which is not among the sources.
  The spec has it as the unsubscription from the instance's events that destruction
  performs first.
\<close>

definition unhookEditor :: "component \<Rightarrow> nat \<Rightarrow> component" where
  "unhookEditor c i =
     emit (c\<lparr>quills := (quills c)(i := (quills c i)\<lparr>hooked := False\<rparr>)\<rparr>) (Unhooked i)"

text \<open>
  Modelled from the spec: \<open>setEditorContents\<close> of the mixin, which is not among the
  sources. The spec has it replace the instance's full document state with the incoming
  value (structured) or the incoming markup (string), in a single operation.
\<close>

definition setEditorContents :: "component \<Rightarrow> nat \<Rightarrow> jsval \<Rightarrow> component" where
  "setEditorContents c i v =
     emit (c\<lparr>quills := (quills c)(i := (quills c i)\<lparr>contents := v\<rparr>)\<rparr>) (ValuePushed i v)"

text \<open>
  Modelled from the spec: \<open>setEditorSelection\<close> of the mixin, which is not among the
  sources. The spec has it as \<open>setSelection(range|null)\<close> on the instance.
\<close>

definition setEditorSelection :: "component \<Rightarrow> nat \<Rightarrow> jsval \<Rightarrow> component" where
  "setEditorSelection c i r = quillSetSelection c i r"

text \<open>
  Modelled from the spec: \<open>setEditorReadOnly\<close> of the mixin, which is not among the
  sources. The spec has it as \<open>instance.enable(!readOnly)\<close>.
\<close>

definition setEditorReadOnly :: "component \<Rightarrow> nat \<Rightarrow> jsval \<Rightarrow> component" where
  "setEditorReadOnly c i v =
     emit (c\<lparr>quills := (quills c)(i := (quills c i)\<lparr>enabled := \<not> truthy v\<rparr>)\<rparr>)
       (ReadOnlySet i v)"

section \<open>The component\<close>

definition isControlled :: "component \<Rightarrow> bool" where
  "isControlled c = hasp (props c) ''value''"

text \<open>
  The field initialisers and the constructor. \<open>isControlled\<close> reads \<open>this.props\<close>, which
  \<open>super(props)\<close> has set to the constructor's argument.
\<close>

definition initial :: "props \<Rightarrow> component" where
  "initial p =
     \<lparr>props = p,
      state = \<lparr>generation = 0, stateValue = JStr [], stateSelection = JNull\<rparr>,
      pending = [], editor = None, editingArea = None,
      lastDeltaChangeSet = JUndefined, regenerationSnapshot = None,
      quills = (\<lambda>i. \<lparr>container = 0, config = [], contents = blankDocument,
                      selection = JNull, hasFocus = False, enabled = False,
                      hooked = False\<rparr>),
      allocated = 0, trace = []\<rparr>"

definition constructor :: "props \<Rightarrow> component" where
  "constructor p =
     (let c = initial p;
          v = (if isControlled c then getp p ''value'' else getp p ''defaultValue'')
      in c\<lparr>state := (state c)\<lparr>stateValue := coalesce v (JStr [])\<rparr>\<rparr>)"

text \<open>
  \<open>React.Children.count\<close>: \<open>null\<close> and \<open>undefined\<close> have no children, an array has those
  of its elements, with nested arrays flattened, and any other node is one child.
\<close>

fun countNodes :: "jsval \<Rightarrow> nat" where
  "countNodes (JArr a xs) = sum_list (map countNodes xs)"
| "countNodes v = 1"

definition childrenCount :: "jsval \<Rightarrow> nat" where
  "childrenCount v = (if nullish v then 0 else countNodes v)"

text \<open>
  \<open>React.Children.only\<close>: the child itself when it is a React element (an object), an
  error otherwise.
\<close>

fun childrenOnly :: "jsval \<Rightarrow> error + jsval" where
  "childrenOnly (JObj a kvs) = Inr (JObj a kvs)"
| "childrenOnly v = Inl NotASingleElement"

text \<open>\<open>v?.k\<close> and \<open>v?.[0]\<close>.\<close>

definition optMember :: "jsval \<Rightarrow> string \<Rightarrow> jsval" where
  "optMember v k = (if nullish v then JUndefined else member v k)"

definition optIndex0 :: "jsval \<Rightarrow> jsval" where
  "optIndex0 v = (if nullish v then JUndefined else index0 v)"

text \<open>\<open>typeof x !== 'string'\<close>.\<close>

fun notString :: "jsval \<Rightarrow> bool" where
  "notString (JStr s) = False"
| "notString v = True"

text \<open>\<open>!(formats instanceof Array) || some(formats, x => typeof x !== 'string')\<close>.\<close>

fun badFormats :: "jsval \<Rightarrow> bool" where
  "badFormats (JArr a xs) = list_ex notString xs"
| "badFormats v = True"

definition validateProps :: "component \<Rightarrow> props \<Rightarrow> error + unit" where
  "validateProps c p =
     (if hasp p ''toolbar'' then Inl ToolbarDeprecated
      else if truthy (optMember (optIndex0 (optMember (getp p ''modules'') ''toolbar'')) ''type'')
        then Inl CustomToolbar
      else if truthy (getp p ''formats'') \<and> badFormats (getp p ''formats'')
        then Inl CustomFormats
      else if hasp p ''styles'' then Inl StylesDeprecated
      else if hasp p ''pollInterval'' then Inl PollIntervalDeprecated
      else if childrenCount (getp p ''children'') > 1 then Inl MultipleChildren
      else
        (case (if childrenCount (getp p ''children'') \<noteq> 0
               then (case childrenOnly (getp p ''children'') of
                       Inl e \<Rightarrow> Inl e
                     | Inr child \<Rightarrow>
                         if strictEq (optMember child ''type'') (JStr ''textarea'')
                         then Inl TextareaChild else Inr ())
               else Inr ()) of
           Inl e \<Rightarrow> Inl e
         | Inr u \<Rightarrow>
             if truthy (lastDeltaChangeSet c) \<and>
                strictEq (getp p ''value'') (lastDeltaChangeSet c)
             then Inl DeltaAsValue
             else Inr ()))"

text \<open>\<open>some(keys, prop => !isEqual(nextProps[prop], this.props[prop]))\<close>.\<close>

definition someDiffers :: "string list \<Rightarrow> props \<Rightarrow> props \<Rightarrow> bool" where
  "someDiffers keys nextProps thisProps =
     list_ex (\<lambda>prop. \<not> isEqual (getp nextProps prop) (getp thisProps prop)) keys"

definition shouldComponentUpdate :: "component \<Rightarrow> props \<Rightarrow> rqstate \<Rightarrow> error + bool" where
  "shouldComponentUpdate c nextProps nextState =
     (case validateProps c nextProps of
        Inl e \<Rightarrow> Inl e
      | Inr u \<Rightarrow>
          if generation (state c) \<noteq> generation nextState then Inr True
          else Inr (someDiffers (cleanProps @ dirtyProps) nextProps (props c)))"

definition shouldComponentRegenerate :: "component \<Rightarrow> props \<Rightarrow> bool" where
  "shouldComponentRegenerate c nextProps = someDiffers dirtyProps nextProps (props c)"

definition getEditorConfig :: "component \<Rightarrow> (string \<times> jsval) list" where
  "getEditorConfig c =
     map (\<lambda>k. (k, getp (props c) k))
       [''bounds'', ''formats'', ''modules'', ''placeholder'', ''readOnly'',
        ''scrollingContainer'', ''tabIndex'', ''theme'']"

definition getEditingArea :: "component \<Rightarrow> error + domnode" where
  "getEditingArea c =
     (case editingArea c of
        None \<Rightarrow> Inl MissingEditingArea
      | Some (ReactInstance None) \<Rightarrow> Inl NoElementForEditingArea
      | Some (ReactInstance (Some element)) \<Rightarrow>
          if nodeType element = 3 then Inl TextNodeEditingArea else Inr element)"

definition instantiateEditor :: "component \<Rightarrow> error + component" where
  "instantiateEditor c =
     (case editor c of
        Some e \<Rightarrow> Inl AlreadyInstantiated
      | None \<Rightarrow>
          (case getEditingArea c of
             Inl err \<Rightarrow> Inl err
           | Inr element \<Rightarrow>
               (case createEditor c element (getEditorConfig c) of
                  (c', i) \<Rightarrow> Inr (c'\<lparr>editor := Some i\<rparr>))))"

definition destroyEditor :: "component \<Rightarrow> error + component" where
  "destroyEditor c =
     (case editor c of
        None \<Rightarrow> Inl DestroyBeforeInstantiation
      | Some e \<Rightarrow> Inr ((unhookEditor c e)\<lparr>editor := None\<rparr>))"

definition getEditor :: "component \<Rightarrow> error + nat" where
  "getEditor c = (case editor c of None \<Rightarrow> Inl NonInstantiatedEditor | Some e \<Rightarrow> Inr e)"

definition getEditorContents :: "component \<Rightarrow> jsval" where
  "getEditorContents c = stateValue (state c)"

definition getEditorSelection :: "component \<Rightarrow> jsval" where
  "getEditorSelection c = stateSelection (state c)"

definition componentDidMount :: "component \<Rightarrow> error + component" where
  "componentDidMount c =
     (case instantiateEditor c of
        Inl err \<Rightarrow> Inl err
      | Inr c' \<Rightarrow>
          (case editor c' of
             None \<Rightarrow> Inl TypeError
           | Some e \<Rightarrow> Inr (setEditorContents c' e (stateValue (state c')))))"

definition componentWillUnmount :: "component \<Rightarrow> error + component" where
  "componentWillUnmount c = destroyEditor c"

text \<open>
  \<open>componentDidUpdate\<close>, one definition for each of its four blocks. Each block works on
  \<open>editor\<close>, the constant bound to \<open>this.editor\<close> on entry (here \<open>e\<close>), which keeps naming
  the same instance whatever happens to \<open>this.editor\<close> afterwards. Where the source
  throws, the result is the error and the update is left unfinished.
\<close>

text \<open>Lines 251 to 257: snapshot, bump of the generation, destruction.\<close>

definition snapshotAndDestroy :: "component \<Rightarrow> nat \<Rightarrow> props \<Rightarrow> error + component" where
  "snapshotAndDestroy c e prevProps =
     (if shouldComponentRegenerate c prevProps then
        (let delta = quillGetContents c e;
             sel = quillGetSelection c e;
             c1 = c\<lparr>regenerationSnapshot := Some (delta, sel)\<rparr>;
             c2 = setState c1 (SetGeneration (generation (state c1) + 1))
         in destroyEditor c2)
      else Inr c)"

text \<open>Lines 261 to 268: re-instantiation and restoration from the snapshot.\<close>

definition reinstantiateAndRestore :: "component \<Rightarrow> nat \<Rightarrow> rqstate \<Rightarrow> error + component" where
  "reinstantiateAndRestore c e prevState =
     (if generation (state c) \<noteq> generation prevState then
        (case regenerationSnapshot c of
           None \<Rightarrow> Inl TypeError
         | Some (delta, sel) \<Rightarrow>
             (case instantiateEditor (c\<lparr>regenerationSnapshot := None\<rparr>) of
                Inl err \<Rightarrow> Inl err
              | Inr c1 \<Rightarrow>
                  (let c2 = quillSetContents c1 e delta;
                       c3 = (if truthy sel then quillSetSelection c2 e sel else c2)
                   in Inr (quillFocus c3 e))))
      else Inr c)"

text \<open>Lines 272 to 285: the push of the external value.\<close>

definition pushValue :: "component \<Rightarrow> nat \<Rightarrow> rqstate \<Rightarrow> component" where
  "pushValue c e prevState =
     (if hasp (props c) ''value'' then
        (let prevContents = stateValue prevState;
             nextContents = coalesce (getp (props c) ''value'') (JStr [])
         in if \<not> isEqualValue nextContents prevContents
            then setEditorContents c e nextContents
            else c)
      else c)"

text \<open>Lines 288 to 292: the read-only flag, in place.\<close>

definition updateReadOnly :: "component \<Rightarrow> nat \<Rightarrow> props \<Rightarrow> component" where
  "updateReadOnly c e prevProps =
     (if hasp (props c) ''readOnly'' then
        (if \<not> strictEq (getp (props c) ''readOnly'') (getp prevProps ''readOnly'')
         then setEditorReadOnly c e (getp (props c) ''readOnly'')
         else c)
      else c)"

definition componentDidUpdate :: "component \<Rightarrow> props \<Rightarrow> rqstate \<Rightarrow> error + component" where
  "componentDidUpdate c prevProps prevState =
     (case editor c of
        None \<Rightarrow> Inr c
      | Some e \<Rightarrow>
          (case snapshotAndDestroy c e prevProps of
             Inl err \<Rightarrow> Inl err
           | Inr c1 \<Rightarrow>
               (case reinstantiateAndRestore c1 e prevState of
                  Inl err \<Rightarrow> Inl err
                | Inr c2 \<Rightarrow> Inr (updateReadOnly (pushValue c2 e prevState) e prevProps))))"

definition onEditorChangeText ::
  "component \<Rightarrow> jsval \<Rightarrow> jsval \<Rightarrow> jsval \<Rightarrow> unprivilegedEditor \<Rightarrow> error + component" where
  "onEditorChangeText c val delta source ed =
     (let currentContents = getEditorContents c;
          nextContents = (if isDelta currentContents then getContents ed else getHTML ed)
      in if \<not> isEqualValue nextContents currentContents then
           callProp (setState (c\<lparr>lastDeltaChangeSet := delta\<rparr>) (SetValue nextContents))
             ''onChange'' [val, delta, source] ed
         else Inr c)"

definition onEditorChangeSelection ::
  "component \<Rightarrow> jsval \<Rightarrow> jsval \<Rightarrow> unprivilegedEditor \<Rightarrow> error + component" where
  "onEditorChangeSelection c nextSelection source ed =
     (let currentSelection = getEditorSelection c;
          hasGainedFocus = (\<not> truthy currentSelection \<and> truthy nextSelection);
          hasLostFocus = (truthy currentSelection \<and> \<not> truthy nextSelection)
      in if isEqual nextSelection currentSelection then Inr c
         else
           (case callProp (setState c (SetSelection nextSelection))
                   ''onChangeSelection'' [nextSelection, source] ed of
              Inl err \<Rightarrow> Inl err
            | Inr c1 \<Rightarrow>
                if hasGainedFocus then callProp c1 ''onFocus'' [nextSelection, source] ed
                else if hasLostFocus then callProp c1 ''onBlur'' [currentSelection, source] ed
                else Inr c1))"

definition focus :: "component \<Rightarrow> component" where
  "focus c = (case editor c of None \<Rightarrow> c | Some e \<Rightarrow> quillFocus c e)"

definition blur :: "component \<Rightarrow> component" where
  "blur c = (case editor c of None \<Rightarrow> c | Some e \<Rightarrow> setEditorSelection c e JNull)"

section \<open>The update cycle of the host framework\<close>

text \<open>
  React's contract for an update of a class component: the queued partial states are
  merged into the next state, \<open>shouldComponentUpdate\<close> is asked with the next props and
  the next state while \<open>this.props\<close> and \<open>this.state\<close> are still the previous ones, then
  props and state are replaced, and when the answer was yes the component is rendered
  and \<open>componentDidUpdate\<close> is called with the previous props and state. The render
  itself computes elements from props and state; its one effect on the component, the
  ref callback that sets \<open>editingArea\<close>, leaves the field naming an element.
\<close>

definition nextState :: "component \<Rightarrow> rqstate" where
  "nextState c = foldl applyPatch (state c) (pending c)"

definition updateComponent :: "component \<Rightarrow> props \<Rightarrow> error + component" where
  "updateComponent c nextProps =
     (case shouldComponentUpdate c nextProps (nextState c) of
        Inl err \<Rightarrow> Inl err
      | Inr go \<Rightarrow>
          (let c' = c\<lparr>props := nextProps, state := nextState c, pending := []\<rparr>
           in if go then componentDidUpdate c' (props c) (state c) else Inr c'))"

section \<open>Vocabulary of the properties\<close>

text \<open>The events that a step from \<open>c\<close> to \<open>c'\<close> has added to the trace.\<close>

definition newEvents :: "component \<Rightarrow> component \<Rightarrow> event list" where
  "newEvents c c' = drop (length (trace c)) (trace c')"

text \<open>
  A callback prop as its TypeScript type has it: left out (or nullish), or a function.
\<close>

fun isFunction :: "jsval \<Rightarrow> bool" where
  "isFunction (JFun f) = True"
| "isFunction v = False"

definition optionalCallback :: "component \<Rightarrow> string \<Rightarrow> bool" where
  "optionalCallback c name =
     (if nullish (getp (props c) name) then True else isFunction (getp (props c) name))"

text \<open>The call of the callback prop \<open>name\<close>, if the caller has supplied one.\<close>

definition callsOf ::
  "component \<Rightarrow> string \<Rightarrow> jsval list \<Rightarrow> unprivilegedEditor \<Rightarrow> event list" where
  "callsOf c name args ed =
     (if nullish (getp (props c) name) then []
      else [Called name (getp (props c) name) args ed])"

subsection \<open>Between two recorded changes\<close>

text \<open>
  What may happen to a component after it has recorded a text change and before it
  records the next one: it is rendered (which sets the editing-area ref), the editor
  instances change under the user's hands, it is updated, it is notified of a text
  change that it drops or of a selection change, it is focused or blurred.
\<close>

inductive later :: "component \<Rightarrow> component \<Rightarrow> bool" where
  now: "later c c"
| rendered: "later c c1 \<Longrightarrow> later c (c1\<lparr>editingArea := area\<rparr>)"
| engine: "later c c1 \<Longrightarrow> later c (c1\<lparr>quills := qs\<rparr>)"
| updated: "later c c1 \<Longrightarrow> updateComponent c1 nextProps = Inr c2 \<Longrightarrow> later c c2"
| dropped:
    "later c c1 \<Longrightarrow> onEditorChangeText c1 val delta source ed = Inr c1 \<Longrightarrow> later c c1"
| selectionChanged:
    "later c c1 \<Longrightarrow> onEditorChangeSelection c1 sel source ed = Inr c2 \<Longrightarrow> later c c2"
| focused: "later c c1 \<Longrightarrow> later c (focus c1)"
| blurred: "later c c1 \<Longrightarrow> later c (blur c1)"

subsection \<open>Concrete components\<close>

text \<open>The editing area after a render: the ref resolves to an element node.\<close>

definition mountedArea :: "reactInstance option" where
  "mountedArea = Some (ReactInstance (Some \<lparr>nodeId = 7, nodeType = 1\<rparr>))"

text \<open>A component constructed with props \<open>p\<close>, rendered and mounted.\<close>

definition mounted :: "props \<Rightarrow> component" where
  "mounted p = projr (componentDidMount ((constructor p)\<lparr>editingArea := mountedArea\<rparr>))"

text \<open>A self-managed editor whose theme the parent changes from snow to bubble.\<close>

definition snowProps :: props where
  "snowProps = [''theme'' \<mapsto> JStr ''snow'', ''defaultValue'' \<mapsto> JStr ''hello'']"

definition bubbleProps :: props where
  "bubbleProps = [''theme'' \<mapsto> JStr ''bubble'', ''defaultValue'' \<mapsto> JStr ''hello'']"

text \<open>The component after the update that carries the new theme, and after the next one.\<close>

definition regenerating :: component where
  "regenerating = projr (updateComponent (mounted snowProps) bubbleProps)"

definition regenerated :: component where
  "regenerated = projr (updateComponent regenerating bubbleProps)"

text \<open>
  A controlled editor; the parent passes a new \<open>onChange\<close> closure, \<open>f\<close>, on every
  render. Its \<open>modules\<close> object is allocated at \<open>a\<close>.
\<close>

definition controlledProps :: "nat \<Rightarrow> nat \<Rightarrow> string \<Rightarrow> props" where
  "controlledProps f a v =
     [''value'' \<mapsto> JStr v, ''onChange'' \<mapsto> JFun f, ''modules'' \<mapsto> JObj a []]"

text \<open>The change payload of an edit, and the view of the editor sent along with it.\<close>

definition typedDelta :: jsval where
  "typedDelta = JObj 9 [(''ops'', JArr 10 [JObj 11 [(''insert'', JStr ''b'')]])]"

definition typedView :: unprivilegedEditor where
  "typedView = \<lparr>getContents = typedDelta, getHTML = JStr ''<p>b</p>''\<rparr>"

text \<open>The user has replaced the text; the change has been recorded and reported.\<close>

definition edited :: component where
  "edited = projr (onEditorChangeText (mounted (controlledProps 1 1 ''<p>a</p>''))
     (JStr ''<p>b</p>'') typedDelta (JStr ''user'') typedView)"

text \<open>An editor that reports selection, focus and blur, and a caret at the start.\<close>

definition selectionProps :: props where
  "selectionProps =
     [''onChangeSelection'' \<mapsto> JFun 1, ''onFocus'' \<mapsto> JFun 2, ''onBlur'' \<mapsto> JFun 3]"

definition caret :: jsval where
  "caret = JObj 5 [(''index'', JNum 0), (''length'', JNum 0)]"

text \<open>A structured value with the one operation \<open>{insert: "a"}\<close>, allocated at \<open>a\<close>.\<close>

definition insertA :: "nat \<Rightarrow> jsval" where
  "insertA a = JObj a [(''ops'', JArr (a + 1) [JObj (a + 2) [(''insert'', JStr ''a'')]])]"

text \<open>The parent echoes the change payload back as the new value.\<close>

definition echoProps :: props where
  "echoProps = [''value'' \<mapsto> typedDelta, ''onChange'' \<mapsto> JFun 1, ''modules'' \<mapsto> JObj 1 []]"

text \<open>The parent clears the editor by passing \<open>null\<close> as the value.\<close>

definition nullProps :: props where
  "nullProps = [''value'' \<mapsto> JNull, ''onChange'' \<mapsto> JFun 1, ''modules'' \<mapsto> JObj 1 []]"

text \<open>The theme goes back to snow after the regeneration.\<close>

definition reverted :: component where
  "reverted = projr (updateComponent regenerated snowProps)"

text \<open>The editing area of the snow editor becomes a \<open>textarea\<close> element.\<close>

definition textareaProps :: props where
  "textareaProps =
     [''theme'' \<mapsto> JStr ''snow'', ''defaultValue'' \<mapsto> JStr ''hello'',
      ''children'' \<mapsto> JObj 3 [(''type'', JStr ''textarea'')]]"

section \<open>Evaluation of the definitions\<close>

lemmas helper_defs =
  getp_def hasp_def coalesce_def optMember_def optIndex0_def childrenCount_def strictEq_def
  setState_def emit_def

lemmas quill_defs =
  quillGetContents_def quillGetSelection_def quillSetContents_def quillSetSelection_def
  quillFocus_def createEditor_def unhookEditor_def setEditorContents_def
  setEditorSelection_def setEditorReadOnly_def blankDocument_def

lemmas lifecycle_defs =
  constructor_def initial_def isControlled_def validateProps_def someDiffers_def
  shouldComponentUpdate_def shouldComponentRegenerate_def getEditorConfig_def
  getEditingArea_def instantiateEditor_def destroyEditor_def componentDidMount_def
  snapshotAndDestroy_def reinstantiateAndRestore_def pushValue_def updateReadOnly_def
  componentDidUpdate_def nextState_def updateComponent_def dirtyProps_def cleanProps_def

lemmas handler_defs =
  onEditorChangeText_def onEditorChangeSelection_def getEditorContents_def
  getEditorSelection_def callProp_def isDelta_def isEqualValue_def

section \<open>Deep equality\<close>

lemma truthy_isEqual: "isEqual v w \<Longrightarrow> truthy v = truthy w"
  by (cases v; cases w) auto

lemma member_isEqual:
  assumes "isEqual v w"
  shows "isEqual (member v k) (member w k)"
proof (cases v; cases w)
  fix a kvs b kws
  assume v: "v = JObj a kvs" and w: "w = JObj b kws"
  show "isEqual (member v k) (member w k)"
  proof (cases "map_of kvs k")
    case None
    then have "k \<notin> set (map fst kvs)"
      by (simp add: map_of_eq_None_iff)
    with assms v w have "k \<notin> set (map fst kws)"
      by simp
    then have "map_of kws k = None"
      by (simp add: map_of_eq_None_iff)
    with None v w show ?thesis
      by simp
  next
    case (Some x)
    then have "(k, x) \<in> set kvs"
      by (rule map_of_SomeD)
    with assms v w Some
    have "case map_of kws k of Some y \<Rightarrow> isEqual x y | None \<Rightarrow> False"
      by (auto simp: list_all_iff)
    with Some v w show ?thesis
      by (auto split: option.splits)
  qed
qed (use assms in auto)

lemma isDelta_isEqual: "isEqual v w \<Longrightarrow> isDelta v = isDelta w"
  using truthy_isEqual [of v w] truthy_isEqual [OF member_isEqual, of v w "''ops''"]
  by (simp add: isDelta_def)

lemma isEqual_refl: "isEqual v v"
proof (induction v)
  case (JArr a xs)
  then show ?case
    by (simp add: list_all2_same)
next
  case (JObj a kvs)
  have "\<And>k v. (k, v) \<in> set kvs \<Longrightarrow> isEqual v v"
    using JObj by fastforce
  then show ?case
    by (auto simp: list_all_iff)
qed simp_all

text \<open>
  C4. Two values are equal for the Value Synchronizer exactly when both are structured
  and their \<open>ops\<close> are deeply equal, or neither is structured and they are deeply equal
  as they stand. A structured value and an HTML string fall under neither case.
\<close>

theorem isEqualValue_iff:
  "isEqualValue v w \<longleftrightarrow>
     (isDelta v \<and> isDelta w \<and> isEqual (member v ''ops'') (member w ''ops'')) \<or>
     (\<not> isDelta v \<and> \<not> isDelta w \<and> isEqual v w)"
  using isDelta_isEqual [of v w] by (auto simp: isEqualValue_def)

theorem isEqualValue_iff_witness:
  "isDelta (insertA 1) \<and> \<not> isDelta (JStr ''a'') \<and> \<not> isEqualValue (insertA 1) (JStr ''a'') \<and>
   \<not> isEqualValue (JStr ''a'') (insertA 1) \<and> isEqualValue (insertA 1) (insertA 4) \<and>
   \<not> strictEq (insertA 1) (insertA 4)"
  using isEqualValue_iff [of "insertA 1" "JStr ''a''"]
    isEqualValue_iff [of "JStr ''a''" "insertA 1"]
    isEqualValue_iff [of "insertA 1" "insertA 4"]
  by (simp add: insertA_def isDelta_def strictEq_def)

section \<open>The pre-update decision\<close>

lemma someDiffers_iff:
  "someDiffers keys p q \<longleftrightarrow> (\<exists>k \<in> set keys. \<not> isEqual (getp p k) (getp q k))"
  by (simp add: someDiffers_def list_ex_iff)

text \<open>
  C7, as the code has it. \<open>shouldComponentUpdate\<close> validates the next props before it
  decides. When they pass, it answers yes exactly when the generation differs between
  the current and the next state, or some key of \<open>dirtyProps\<close> or \<open>cleanProps\<close> has
  values that are not deeply equal in the current and the next props; keys outside
  both lists play no part. When they do not pass, it raises the error of the
  validation and gives no answer.
\<close>

theorem shouldComponentUpdate_decision:
  "(validateProps c nextProps = Inr () \<longrightarrow>
      shouldComponentUpdate c nextProps ns =
        Inr (generation (state c) \<noteq> generation ns \<or>
             (\<exists>k \<in> set dirtyProps \<union> set cleanProps.
                \<not> isEqual (getp nextProps k) (getp (props c) k)))) \<and>
   (validateProps c nextProps = Inl err \<longrightarrow>
      shouldComponentUpdate c nextProps ns = Inl err)"
  by (auto simp: shouldComponentUpdate_def someDiffers_iff)

text \<open>
  The parent passes a new value, outside both lists, and a new but deeply equal
  \<open>modules\<close> object: no update. It passes a \<open>textarea\<close> as the editing area: the
  error of the validation.
\<close>

theorem shouldComponentUpdate_decision_witness:
  "validateProps (constructor (controlledProps 1 1 ''<p>a</p>''))
     (controlledProps 1 2 ''<p>b</p>'') = Inr () \<and>
   shouldComponentUpdate (constructor (controlledProps 1 1 ''<p>a</p>''))
     (controlledProps 1 2 ''<p>b</p>'')
     (state (constructor (controlledProps 1 1 ''<p>a</p>''))) = Inr False \<and>
   \<not> strictEq (getp (controlledProps 1 2 ''<p>b</p>'') ''modules'')
        (getp (controlledProps 1 1 ''<p>a</p>'') ''modules'') \<and>
   validateProps (constructor snowProps) textareaProps = Inl TextareaChild \<and>
   shouldComponentUpdate (constructor snowProps) textareaProps
     (state (constructor snowProps)) = Inl TextareaChild"
proof -
  have v: "validateProps (constructor (controlledProps 1 1 ''<p>a</p>''))
      (controlledProps 1 2 ''<p>b</p>'') = Inr ()"
    by (simp add: validateProps_def controlledProps_def constructor_def initial_def
        helper_defs Let_def)
  have w: "validateProps (constructor snowProps) textareaProps = Inl TextareaChild"
    by (simp add: validateProps_def textareaProps_def constructor_def initial_def
        helper_defs Let_def)
  have first: "shouldComponentUpdate (constructor (controlledProps 1 1 ''<p>a</p>''))
     (controlledProps 1 2 ''<p>b</p>'')
     (state (constructor (controlledProps 1 1 ''<p>a</p>''))) = Inr False"
    using shouldComponentUpdate_decision
      [of "constructor (controlledProps 1 1 ''<p>a</p>'')" "controlledProps 1 2 ''<p>b</p>''"
        "state (constructor (controlledProps 1 1 ''<p>a</p>''))"] v
    by (simp add: controlledProps_def constructor_def initial_def getp_def dirtyProps_def
        cleanProps_def Let_def)
  have second: "shouldComponentUpdate (constructor snowProps) textareaProps
     (state (constructor snowProps)) = Inl TextareaChild"
    using shouldComponentUpdate_decision
      [of "constructor snowProps" textareaProps "state (constructor snowProps)" TextareaChild] w
    by simp
  have third: "\<not> strictEq (getp (controlledProps 1 2 ''<p>b</p>'') ''modules'')
        (getp (controlledProps 1 1 ''<p>a</p>'') ''modules'')"
    by (simp add: controlledProps_def getp_def strictEq_def)
  from v w first second third show ?thesis
    by simp
qed

text \<open>
  C7 as claimed fails where the validation does: the editing area of a mounted editor
  becomes a \<open>textarea\<close>. \<open>children\<close> is a key of \<open>dirtyProps\<close> and its value differs,
  the generation is unchanged, and the decision is not yes but an error.
\<close>

theorem decision_raises_on_invalid_props:
  "''children'' \<in> set dirtyProps \<and>
   \<not> isEqual (getp textareaProps ''children'') (getp (props (mounted snowProps)) ''children'') \<and>
   shouldComponentUpdate (mounted snowProps) textareaProps (state (mounted snowProps))
     = Inl TextareaChild"
  by (simp add: mounted_def mountedArea_def snowProps_def textareaProps_def lifecycle_defs
      quill_defs helper_defs Let_def)

section \<open>The editor handle\<close>

text \<open>
  C9, as the code has it. \<open>instantiateEditor\<close> raises when an instance exists, and,
  when none exists, exactly when the editing area cannot be resolved to an element;
  its error is the one about double instantiation exactly when an instance exists.
  \<open>destroyEditor\<close> and \<open>getEditor\<close> raise exactly when no instance exists. With no
  instance, \<open>focus\<close> and \<open>blur\<close> return the component as it was.
\<close>

theorem editor_handle_contract:
  "((\<exists>err. instantiateEditor c = Inl err) \<longleftrightarrow>
      editor c \<noteq> None \<or> (\<exists>err. getEditingArea c = Inl err)) \<and>
   (instantiateEditor c = Inl AlreadyInstantiated \<longleftrightarrow> editor c \<noteq> None) \<and>
   ((\<exists>err. destroyEditor c = Inl err) \<longleftrightarrow> editor c = None) \<and>
   ((\<exists>err. getEditor c = Inl err) \<longleftrightarrow> editor c = None) \<and>
   (editor c = None \<longrightarrow> focus c = c \<and> blur c = c)"
  by (auto simp: instantiateEditor_def destroyEditor_def getEditor_def focus_def blur_def
      getEditingArea_def
      split: option.splits sum.splits prod.splits reactInstance.splits if_splits)

theorem editor_handle_contract_witness:
  "instantiateEditor (mounted snowProps) = Inl AlreadyInstantiated \<and>
   (\<exists>err. destroyEditor (constructor snowProps) = Inl err) \<and>
   (\<exists>err. getEditor (constructor snowProps) = Inl err) \<and>
   focus (constructor snowProps) = constructor snowProps \<and>
   blur (constructor snowProps) = constructor snowProps"
proof -
  have a: "editor (mounted snowProps) \<noteq> None"
    by (simp add: mounted_def mountedArea_def snowProps_def lifecycle_defs quill_defs
        helper_defs Let_def)
  have b: "editor (constructor snowProps) = None"
    by (simp add: constructor_def initial_def Let_def)
  show ?thesis
    using editor_handle_contract [of "mounted snowProps"]
      editor_handle_contract [of "constructor snowProps"] a b
    by simp
qed

text \<open>
  C9 as claimed fails in one direction: a component that has no instance and whose
  editing area has not been rendered cannot instantiate either.
\<close>

theorem instantiate_fails_without_instance:
  "editor (constructor snowProps) = None \<and>
   instantiateEditor (constructor snowProps) = Inl MissingEditingArea"
  by (simp add: constructor_def initial_def instantiateEditor_def getEditingArea_def Let_def)

section \<open>The Change-Event Normalizer\<close>

lemma callProp_optional:
  "optionalCallback c name \<Longrightarrow> props c' = props c \<Longrightarrow>
   callProp c' name args ed = Inr (c'\<lparr>trace := trace c' @ callsOf c name args ed\<rparr>)"
  by (cases "getp (props c) name")
     (auto simp: optionalCallback_def callProp_def callsOf_def emit_def Let_def)

text \<open>
  C2. On a text change the next content is read from the editor in the kind of the
  tracked value: \<open>getContents\<close> when the tracked value is structured, \<open>getHTML\<close>
  otherwise. When it equals the tracked value the component is left exactly as it was:
  no state write, no callback, no token. Otherwise the payload becomes the token, the
  next content is queued as the new tracked value, and \<open>onChange\<close>, when supplied, is
  called with the value, the payload, the source and the editor view.
\<close>

theorem onEditorChangeText_normalizes:
  assumes "optionalCallback c ''onChange''"
    and "current = stateValue (state c)"
    and "next = (if isDelta current then getContents ed else getHTML ed)"
  shows "(isEqualValue next current \<longrightarrow> onEditorChangeText c val delta source ed = Inr c) \<and>
         (\<not> isEqualValue next current \<longrightarrow>
            (\<exists>c'. onEditorChangeText c val delta source ed = Inr c' \<and>
                  lastDeltaChangeSet c' = delta \<and>
                  pending c' = pending c @ [SetValue next] \<and>
                  stateValue (nextState c') = next \<and>
                  trace c' = trace c @ callsOf c ''onChange'' [val, delta, source] ed))"
proof -
  let ?c1 = "setState (c\<lparr>lastDeltaChangeSet := delta\<rparr>) (SetValue next)"
  have p: "props ?c1 = props c"
    by (simp add: setState_def)
  have call: "callProp ?c1 ''onChange'' [val, delta, source] ed =
      Inr (?c1\<lparr>trace := trace ?c1 @ callsOf c ''onChange'' [val, delta, source] ed\<rparr>)"
    by (rule callProp_optional [OF assms(1) p])
  show ?thesis
    using assms(2,3) call
    by (simp add: onEditorChangeText_def getEditorContents_def Let_def setState_def
        nextState_def)
qed

text \<open>
  The tracked value is the string \<open><p>a</p>\<close>. An edit to \<open><p>b</p>\<close> is reported with
  the HTML of the editor; a notification that leaves the HTML at \<open><p>a</p>\<close> is dropped.
\<close>

theorem onEditorChangeText_normalizes_witness:
  "(\<exists>c'. onEditorChangeText (mounted (controlledProps 1 1 ''<p>a</p>''))
            (JStr ''<p>b</p>'') typedDelta (JStr ''user'') typedView = Inr c' \<and>
         lastDeltaChangeSet c' = typedDelta \<and>
         stateValue (nextState c') = JStr ''<p>b</p>'' \<and>
         newEvents (mounted (controlledProps 1 1 ''<p>a</p>'')) c' =
           [Called ''onChange'' (JFun 1) [JStr ''<p>b</p>'', typedDelta, JStr ''user'']
              typedView]) \<and>
   onEditorChangeText (mounted (controlledProps 1 1 ''<p>a</p>''))
     (JStr ''<p>a</p>'') typedDelta (JStr ''api'')
     \<lparr>getContents = typedDelta, getHTML = JStr ''<p>a</p>''\<rparr> =
     Inr (mounted (controlledProps 1 1 ''<p>a</p>''))"
proof -
  let ?c = "mounted (controlledProps 1 1 ''<p>a</p>'')"
  have p: "props ?c = controlledProps 1 1 ''<p>a</p>''"
    by (simp add: mounted_def mountedArea_def controlledProps_def lifecycle_defs quill_defs
        helper_defs Let_def)
  have v: "stateValue (state ?c) = JStr ''<p>a</p>''"
    by (simp add: mounted_def mountedArea_def controlledProps_def lifecycle_defs quill_defs
        helper_defs Let_def)
  have o: "optionalCallback ?c ''onChange''"
    using p by (simp add: optionalCallback_def controlledProps_def getp_def)
  have n: "\<not> isDelta (JStr ''<p>a</p>'')"
    by (simp add: isDelta_def)
  have 1: "JStr ''<p>a</p>'' = stateValue (state ?c)"
    using v by simp
  have 2: "getHTML typedView = (if isDelta (JStr ''<p>a</p>'') then getContents typedView
      else getHTML typedView)"
    using n by simp
  have 3: "JStr ''<p>a</p>'' = (if isDelta (JStr ''<p>a</p>'')
      then getContents \<lparr>getContents = typedDelta, getHTML = JStr ''<p>a</p>''\<rparr>
      else getHTML \<lparr>getContents = typedDelta, getHTML = JStr ''<p>a</p>''\<rparr>)"
    using n by simp
  have c: "callsOf ?c ''onChange'' [JStr ''<p>b</p>'', typedDelta, JStr ''user''] typedView =
      [Called ''onChange'' (JFun 1) [JStr ''<p>b</p>'', typedDelta, JStr ''user''] typedView]"
    using p by (simp add: callsOf_def controlledProps_def getp_def)
  have e1: "\<not> isEqualValue (getHTML typedView) (JStr ''<p>a</p>'')"
    by (simp add: isEqualValue_def isDelta_def typedView_def)
  have e2: "isEqualValue (JStr ''<p>a</p>'') (JStr ''<p>a</p>'')"
    by (simp add: isEqualValue_def isDelta_def)
  from onEditorChangeText_normalizes [OF o 1 2, of "JStr ''<p>b</p>''" typedDelta "JStr ''user''"]
    e1 c
  obtain c' where r: "onEditorChangeText ?c (JStr ''<p>b</p>'') typedDelta (JStr ''user'')
        typedView = Inr c'"
    and t: "lastDeltaChangeSet c' = typedDelta"
    and s: "stateValue (nextState c') = getHTML typedView"
    and tr: "trace c' = trace ?c @
      [Called ''onChange'' (JFun 1) [JStr ''<p>b</p>'', typedDelta, JStr ''user''] typedView]"
    by auto
  have first: "\<exists>c'. onEditorChangeText ?c (JStr ''<p>b</p>'') typedDelta (JStr ''user'')
        typedView = Inr c' \<and> lastDeltaChangeSet c' = typedDelta \<and>
        stateValue (nextState c') = JStr ''<p>b</p>'' \<and>
        newEvents ?c c' =
          [Called ''onChange'' (JFun 1) [JStr ''<p>b</p>'', typedDelta, JStr ''user'']
             typedView]"
    using r t s tr by (simp add: newEvents_def typedView_def)
  have second: "onEditorChangeText ?c (JStr ''<p>a</p>'') typedDelta (JStr ''api'')
     \<lparr>getContents = typedDelta, getHTML = JStr ''<p>a</p>''\<rparr> = Inr ?c"
    using onEditorChangeText_normalizes [OF o 1 3, of "JStr ''<p>a</p>''" typedDelta
        "JStr ''api''"] e2
    by simp
  from first second show ?thesis
    by blast
qed

text \<open>
  C3. A selection change that is deeply equal to the tracked selection leaves the
  component exactly as it was. Otherwise the new selection is queued as the tracked
  one and \<open>onChangeSelection\<close> is called; then \<open>onFocus\<close> is called with the new
  selection when the tracked one was absent and the new one is present, or else
  \<open>onBlur\<close> is called with the tracked (previous) selection when it was present and the
  new one is absent. The two are branches of one conditional: never both.
\<close>

theorem onEditorChangeSelection_normalizes:
  assumes "optionalCallback c ''onChangeSelection''"
    and "optionalCallback c ''onFocus''"
    and "optionalCallback c ''onBlur''"
    and "current = stateSelection (state c)"
  shows "(isEqual next current \<longrightarrow> onEditorChangeSelection c next source ed = Inr c) \<and>
         (\<not> isEqual next current \<longrightarrow>
            (\<exists>c'. onEditorChangeSelection c next source ed = Inr c' \<and>
                  pending c' = pending c @ [SetSelection next] \<and>
                  stateSelection (nextState c') = next \<and>
                  trace c' = trace c @ callsOf c ''onChangeSelection'' [next, source] ed @
                    (if \<not> truthy current \<and> truthy next
                       then callsOf c ''onFocus'' [next, source] ed
                     else if truthy current \<and> \<not> truthy next
                       then callsOf c ''onBlur'' [current, source] ed
                     else [])))"
proof -
  let ?c1 = "setState c (SetSelection next)"
  let ?c2 = "?c1\<lparr>trace := trace ?c1 @ callsOf c ''onChangeSelection'' [next, source] ed\<rparr>"
  have p1: "props ?c1 = props c"
    by (simp add: setState_def)
  have p2: "props ?c2 = props c"
    by (simp add: setState_def)
  have call1: "callProp ?c1 ''onChangeSelection'' [next, source] ed = Inr ?c2"
    by (rule callProp_optional [OF assms(1) p1])
  have call2: "callProp ?c2 ''onFocus'' [next, source] ed =
      Inr (?c2\<lparr>trace := trace ?c2 @ callsOf c ''onFocus'' [next, source] ed\<rparr>)"
    by (rule callProp_optional [OF assms(2) p2])
  have call3: "callProp ?c2 ''onBlur'' [current, source] ed =
      Inr (?c2\<lparr>trace := trace ?c2 @ callsOf c ''onBlur'' [current, source] ed\<rparr>)"
    by (rule callProp_optional [OF assms(3) p2])
  show ?thesis
    using assms(4) call1 call2 call3
    by (simp add: onEditorChangeSelection_def getEditorSelection_def Let_def setState_def
        nextState_def)
qed

text \<open>
  The selection goes from \<open>null\<close> to a caret: \<open>onFocus\<close> is called with the caret. It
  then goes back to \<open>null\<close>: \<open>onBlur\<close> is called with the caret, not with \<open>null\<close>.
\<close>

theorem onEditorChangeSelection_normalizes_witness:
  "(\<exists>c'. onEditorChangeSelection (constructor selectionProps) caret (JStr ''user'') typedView
            = Inr c' \<and>
         stateSelection (nextState c') = caret \<and>
         trace c' =
           [Called ''onChangeSelection'' (JFun 1) [caret, JStr ''user''] typedView,
            Called ''onFocus'' (JFun 2) [caret, JStr ''user''] typedView]) \<and>
   (\<exists>c'. onEditorChangeSelection
            ((constructor selectionProps)\<lparr>state := \<lparr>generation = 0, stateValue = JStr [],
               stateSelection = caret\<rparr>\<rparr>) JNull (JStr ''user'') typedView = Inr c' \<and>
         stateSelection (nextState c') = JNull \<and>
         trace c' =
           [Called ''onChangeSelection'' (JFun 1) [JNull, JStr ''user''] typedView,
            Called ''onBlur'' (JFun 3) [caret, JStr ''user''] typedView]) \<and>
   onEditorChangeSelection
     ((constructor selectionProps)\<lparr>state := \<lparr>generation = 0, stateValue = JStr [],
        stateSelection = caret\<rparr>\<rparr>) (JObj 6 [(''length'', JNum 0), (''index'', JNum 0)])
     (JStr ''user'') typedView =
     Inr ((constructor selectionProps)\<lparr>state := \<lparr>generation = 0, stateValue = JStr [],
        stateSelection = caret\<rparr>\<rparr>)"
proof -
  let ?c = "constructor selectionProps"
  let ?d = "?c\<lparr>state := \<lparr>generation = 0, stateValue = JStr [], stateSelection = caret\<rparr>\<rparr>"
  have pc: "props ?c = selectionProps" and pd: "props ?d = selectionProps"
    and tc: "trace ?c = []" and td: "trace ?d = []"
    and sc: "JNull = stateSelection (state ?c)" and sd: "caret = stateSelection (state ?d)"
    by (simp_all add: constructor_def initial_def Let_def)
  have oc: "optionalCallback ?c ''onChangeSelection''" "optionalCallback ?c ''onFocus''"
    "optionalCallback ?c ''onBlur''"
    unfolding optionalCallback_def pc by (simp_all add: selectionProps_def getp_def)
  have od: "optionalCallback ?d ''onChangeSelection''" "optionalCallback ?d ''onFocus''"
    "optionalCallback ?d ''onBlur''"
    unfolding optionalCallback_def pd by (simp_all add: selectionProps_def getp_def)
  have first: "\<exists>c'. onEditorChangeSelection ?c caret (JStr ''user'') typedView = Inr c' \<and>
         stateSelection (nextState c') = caret \<and>
         trace c' =
           [Called ''onChangeSelection'' (JFun 1) [caret, JStr ''user''] typedView,
            Called ''onFocus'' (JFun 2) [caret, JStr ''user''] typedView]"
    using onEditorChangeSelection_normalizes [OF oc sc, of caret "JStr ''user''" typedView]
    unfolding callsOf_def pc tc
    by (auto simp add: selectionProps_def getp_def caret_def)
  have second: "\<exists>c'. onEditorChangeSelection ?d JNull (JStr ''user'') typedView = Inr c' \<and>
         stateSelection (nextState c') = JNull \<and>
         trace c' =
           [Called ''onChangeSelection'' (JFun 1) [JNull, JStr ''user''] typedView,
            Called ''onBlur'' (JFun 3) [caret, JStr ''user''] typedView]"
    using onEditorChangeSelection_normalizes [OF od sd, of JNull "JStr ''user''" typedView]
    unfolding callsOf_def pd td
    by (auto simp add: selectionProps_def getp_def caret_def)
  have eq: "isEqual (JObj 6 [(''length'', JNum 0), (''index'', JNum 0)]) caret"
    by (auto simp: caret_def)
  have third: "onEditorChangeSelection ?d (JObj 6 [(''length'', JNum 0), (''index'', JNum 0)])
     (JStr ''user'') typedView = Inr ?d"
    using onEditorChangeSelection_normalizes [OF od sd,
        of "JObj 6 [(''length'', JNum 0), (''index'', JNum 0)]" "JStr ''user''" typedView] eq
    by blast
  from first second third show ?thesis
    by blast
qed

section \<open>The feedback-loop guard\<close>

lemma validateProps_delta_as_value:
  assumes "addressOf (lastDeltaChangeSet c) = Some a"
    and "addressOf (getp nextProps ''value'') = Some a"
  shows "\<exists>err. validateProps c nextProps = Inl err"
proof -
  have t: "truthy (lastDeltaChangeSet c)"
    using assms(1) by (cases "lastDeltaChangeSet c") auto
  have s: "strictEq (getp nextProps ''value'') (lastDeltaChangeSet c)"
    using assms by (simp add: strictEq_def)
  show ?thesis
    using t s by (auto simp: validateProps_def split: sum.splits)
qed

lemma validateProps_only_delta_check:
  assumes "validateProps (c\<lparr>lastDeltaChangeSet := JUndefined\<rparr>) nextProps = Inr ()"
    and "addressOf (lastDeltaChangeSet c) = Some a"
    and "addressOf (getp nextProps ''value'') = Some a"
  shows "validateProps c nextProps = Inl DeltaAsValue"
proof -
  have t: "truthy (lastDeltaChangeSet c)"
    using assms(2) by (cases "lastDeltaChangeSet c") auto
  have s: "strictEq (getp nextProps ''value'') (lastDeltaChangeSet c)"
    using assms(2,3) by (simp add: strictEq_def)
  show ?thesis
    using t s assms(1) by (auto simp: validateProps_def split: sum.splits if_splits)
qed

lemma onEditorChangeText_token:
  assumes "onEditorChangeText c0 val delta source ed = Inr c" and "trace c \<noteq> trace c0"
  shows "lastDeltaChangeSet c = delta"
  using assms
  by (auto simp: onEditorChangeText_def callProp_def Let_def setState_def emit_def
      split: if_splits jsval.splits)

lemma callProp_token:
  "callProp c name args ed = Inr c' \<Longrightarrow> lastDeltaChangeSet c' = lastDeltaChangeSet c"
  by (auto simp: callProp_def emit_def Let_def split: if_splits jsval.splits)

lemma selection_token:
  assumes "onEditorChangeSelection c sel source ed = Inr c'"
  shows "lastDeltaChangeSet c' = lastDeltaChangeSet c"
proof (cases "isEqual sel (getEditorSelection c)")
  case True
  with assms show ?thesis
    by (simp add: onEditorChangeSelection_def Let_def)
next
  case False
  let ?c0 = "setState c (SetSelection sel)"
  from assms False obtain c1 where
    c1: "callProp ?c0 ''onChangeSelection'' [sel, source] ed = Inr c1"
    by (auto simp: onEditorChangeSelection_def Let_def split: sum.splits)
  have t1: "lastDeltaChangeSet c1 = lastDeltaChangeSet c"
    using callProp_token [OF c1] by (simp add: setState_def)
  from assms False c1 have
    "callProp c1 ''onFocus'' [sel, source] ed = Inr c' \<or>
     callProp c1 ''onBlur'' [getEditorSelection c, source] ed = Inr c' \<or> c' = c1"
    by (auto simp: onEditorChangeSelection_def Let_def split: if_splits)
  then show ?thesis
    using t1 callProp_token [of c1 "''onFocus''" _ ed c']
      callProp_token [of c1 "''onBlur''" _ ed c']
    by auto
qed

lemma componentDidUpdate_token:
  assumes "componentDidUpdate c prevProps prevState = Inr c'"
  shows "lastDeltaChangeSet c' = lastDeltaChangeSet c"
proof (cases "editor c")
  case None
  with assms show ?thesis
    by (simp add: componentDidUpdate_def)
next
  case (Some e)
  from assms Some obtain c1 c2 where
    s1: "snapshotAndDestroy c e prevProps = Inr c1" and
    s2: "reinstantiateAndRestore c1 e prevState = Inr c2" and
    c': "c' = updateReadOnly (pushValue c2 e prevState) e prevProps"
    by (auto simp: componentDidUpdate_def split: sum.splits)
  have 1: "lastDeltaChangeSet c1 = lastDeltaChangeSet c"
    using s1
    by (auto simp: snapshotAndDestroy_def destroyEditor_def unhookEditor_def setState_def
        emit_def Let_def split: if_splits option.splits)
  have 2: "lastDeltaChangeSet c2 = lastDeltaChangeSet c1"
    using s2
    by (auto simp: reinstantiateAndRestore_def instantiateEditor_def createEditor_def
        quillSetContents_def quillSetSelection_def quillFocus_def emit_def Let_def
        split: if_splits option.splits sum.splits prod.splits)
  have 3: "lastDeltaChangeSet c' = lastDeltaChangeSet c2"
    unfolding c'
    by (simp add: updateReadOnly_def pushValue_def setEditorContents_def setEditorReadOnly_def
        emit_def Let_def)
  from 1 2 3 show ?thesis
    by simp
qed

lemma updateComponent_token:
  assumes "updateComponent c nextProps = Inr c'"
  shows "lastDeltaChangeSet c' = lastDeltaChangeSet c"
proof -
  let ?c1 = "c\<lparr>props := nextProps, state := nextState c, pending := []\<rparr>"
  from assms have "componentDidUpdate ?c1 (props c) (state c) = Inr c' \<or> c' = ?c1"
    by (auto simp: updateComponent_def Let_def split: sum.splits if_splits)
  then show ?thesis
    using componentDidUpdate_token [of ?c1 "props c" "state c" c'] by auto
qed

text \<open>The token stays what it is until the next text change is recorded.\<close>

lemma later_token: "later c c' \<Longrightarrow> lastDeltaChangeSet c' = lastDeltaChangeSet c"
proof (induction rule: later.induct)
  case (updated c c1 nextProps c2)
  then show ?case
    using updateComponent_token by simp
next
  case (selectionChanged c c1 sel source ed c2)
  then show ?case
    using selection_token by simp
next
  case (focused c c1)
  then show ?case
    by (simp add: focus_def quillFocus_def emit_def split: option.splits)
next
  case (blurred c c1)
  then show ?case
    by (simp add: blur_def setEditorSelection_def quillSetSelection_def emit_def
        split: option.splits)
qed simp_all

text \<open>
  C5. The component has reported a change to \<open>onChange\<close> with the payload \<open>delta\<close>, an
  object, and has recorded no text change since. If the next props carry that very
  object as \<open>value\<close>, validation raises an error, so does \<open>shouldComponentUpdate\<close>, whose
  first statement it is, and the update ends there, before it has rendered or touched
  the editor. When the props are valid otherwise, the error is the one about the delta
  passed back as value.
\<close>

theorem feedback_loop_guard:
  assumes "onEditorChangeText c0 val delta source ed = Inr c1"
    and "trace c1 \<noteq> trace c0"
    and "later c1 c"
    and "addressOf delta = Some a"
    and "addressOf (getp nextProps ''value'') = Some a"
  shows "\<exists>err. validateProps c nextProps = Inl err \<and>
           shouldComponentUpdate c nextProps ns = Inl err \<and>
           updateComponent c nextProps = Inl err \<and>
           (validateProps (c\<lparr>lastDeltaChangeSet := JUndefined\<rparr>) nextProps = Inr ()
              \<longrightarrow> err = DeltaAsValue)"
proof -
  have "lastDeltaChangeSet c1 = delta"
    by (rule onEditorChangeText_token [OF assms(1,2)])
  then have tok: "lastDeltaChangeSet c = delta"
    using later_token [OF assms(3)] by simp
  then have a: "addressOf (lastDeltaChangeSet c) = Some a"
    using assms(4) by simp
  obtain err where err: "validateProps c nextProps = Inl err"
    using validateProps_delta_as_value [OF a assms(5)] by blast
  have "validateProps (c\<lparr>lastDeltaChangeSet := JUndefined\<rparr>) nextProps = Inr ()
      \<Longrightarrow> err = DeltaAsValue"
    using validateProps_only_delta_check [OF _ a assms(5)] err by simp
  with err show ?thesis
    by (auto simp: shouldComponentUpdate_def updateComponent_def)
qed

lemma mounted_controlled:
  "props (mounted (controlledProps f a v)) = controlledProps f a v \<and>
   state (mounted (controlledProps f a v)) =
     \<lparr>generation = 0, stateValue = JStr v, stateSelection = JNull\<rparr> \<and>
   pending (mounted (controlledProps f a v)) = [] \<and>
   editor (mounted (controlledProps f a v)) = Some 0 \<and>
   lastDeltaChangeSet (mounted (controlledProps f a v)) = JUndefined \<and>
   trace (mounted (controlledProps f a v)) = [Created 0 7, ValuePushed 0 (JStr v)]"
  by (simp add: mounted_def mountedArea_def controlledProps_def lifecycle_defs quill_defs
      helper_defs Let_def)

lemma edited_step:
  "onEditorChangeText (mounted (controlledProps 1 1 ''<p>a</p>''))
     (JStr ''<p>b</p>'') typedDelta (JStr ''user'') typedView = Inr edited"
  by (simp add: edited_def handler_defs mounted_def mountedArea_def controlledProps_def
      typedView_def lifecycle_defs quill_defs helper_defs Let_def)

lemma edited_facts:
  "props edited = controlledProps 1 1 ''<p>a</p>'' \<and>
   state edited = \<lparr>generation = 0, stateValue = JStr ''<p>a</p>'', stateSelection = JNull\<rparr> \<and>
   pending edited = [SetValue (JStr ''<p>b</p>'')] \<and>
   editor edited = Some 0 \<and>
   lastDeltaChangeSet edited = typedDelta \<and>
   trace edited = [Created 0 7, ValuePushed 0 (JStr ''<p>a</p>''),
     Called ''onChange'' (JFun 1) [JStr ''<p>b</p>'', typedDelta, JStr ''user''] typedView]"
  by (simp add: edited_def handler_defs mounted_def mountedArea_def controlledProps_def
      typedView_def lifecycle_defs quill_defs helper_defs Let_def)

text \<open>
  The edit of the witness of C2 has been reported with \<open>typedDelta\<close>; the editor has
  since lost its selection and been given the focus again. Props that carry
  \<open>typedDelta\<close> as the value are refused.
\<close>

theorem feedback_loop_guard_witness:
  "later edited (focus (blur edited)) \<and>
   validateProps (focus (blur edited)) echoProps = Inl DeltaAsValue \<and>
   shouldComponentUpdate (focus (blur edited)) echoProps (nextState (focus (blur edited)))
     = Inl DeltaAsValue \<and>
   updateComponent (focus (blur edited)) echoProps = Inl DeltaAsValue"
proof -
  have t: "trace edited \<noteq> trace (mounted (controlledProps 1 1 ''<p>a</p>''))"
    by (simp add: edited_facts mounted_controlled)
  have l: "later edited (focus (blur edited))"
    by (intro later.focused later.blurred later.now)
  have a: "addressOf typedDelta = Some 9"
    by (simp add: typedDelta_def)
  have b: "addressOf (getp echoProps ''value'') = Some 9"
    by (simp add: echoProps_def getp_def typedDelta_def)
  have v: "validateProps ((focus (blur edited))\<lparr>lastDeltaChangeSet := JUndefined\<rparr>) echoProps
      = Inr ()"
    by (simp add: validateProps_def echoProps_def helper_defs typedDelta_def)
  from feedback_loop_guard [OF edited_step t l a b, of "nextState (focus (blur edited))"] v l
  show ?thesis
    by auto
qed

section \<open>The post-commit pass\<close>

lemma componentDidUpdate_without_editor:
  "editor c = None \<Longrightarrow> componentDidUpdate c prevProps prevState = Inr c"
  by (simp add: componentDidUpdate_def)

lemma update_without_editor:
  assumes "editor c = None" and "validateProps c nextProps = Inr ()"
  shows "updateComponent c nextProps =
           Inr (c\<lparr>props := nextProps, state := nextState c, pending := []\<rparr>)"
  using assms
  by (simp add: updateComponent_def shouldComponentUpdate_def componentDidUpdate_def Let_def)

lemma snapshotAndDestroy_idle:
  "\<not> shouldComponentRegenerate c prevProps \<Longrightarrow> snapshotAndDestroy c e prevProps = Inr c"
  by (simp add: snapshotAndDestroy_def)

lemma reinstantiateAndRestore_idle:
  "generation (state c) = generation prevState \<Longrightarrow>
   reinstantiateAndRestore c e prevState = Inr c"
  by (simp add: reinstantiateAndRestore_def)

lemma componentDidUpdate_plain:
  assumes "editor c = Some e"
    and "\<not> shouldComponentRegenerate c prevProps"
    and "generation (state c) = generation prevState"
  shows "componentDidUpdate c prevProps prevState =
           Inr (updateReadOnly (pushValue c e prevState) e prevProps)"
  using assms
  by (simp add: componentDidUpdate_def snapshotAndDestroy_idle reinstantiateAndRestore_idle)

text \<open>What each block adds to the trace, and what it leaves alone.\<close>

lemma snapshotAndDestroy_effect:
  assumes "snapshotAndDestroy c e prevProps = Inr c1"
  shows "props c1 = props c \<and> state c1 = state c \<and>
         (\<exists>evs. trace c1 = trace c @ evs \<and> (\<forall>i v. ValuePushed i v \<notin> set evs))"
  using assms
  by (auto simp: snapshotAndDestroy_def destroyEditor_def unhookEditor_def setState_def
      emit_def Let_def split: if_splits option.splits)

lemma reinstantiateAndRestore_effect:
  assumes "reinstantiateAndRestore c e prevState = Inr c1"
  shows "props c1 = props c \<and> state c1 = state c \<and>
         (\<exists>evs. trace c1 = trace c @ evs \<and> (\<forall>i v. ValuePushed i v \<notin> set evs))"
  using assms
  by (auto simp: reinstantiateAndRestore_def instantiateEditor_def createEditor_def
      quillSetContents_def quillSetSelection_def quillFocus_def emit_def Let_def
      split: if_splits option.splits sum.splits prod.splits)

lemma pushValue_effect:
  "props (pushValue c e prevState) = props c \<and>
   trace (pushValue c e prevState) = trace c @
     (if hasp (props c) ''value'' \<and>
         \<not> isEqualValue (coalesce (getp (props c) ''value'') (JStr [])) (stateValue prevState)
      then [ValuePushed e (coalesce (getp (props c) ''value'') (JStr []))] else [])"
  by (simp add: pushValue_def setEditorContents_def emit_def Let_def)

lemma updateReadOnly_effect:
  "props (updateReadOnly c e prevProps) = props c \<and>
   trace (updateReadOnly c e prevProps) = trace c @
     (if hasp (props c) ''readOnly'' \<and>
         \<not> strictEq (getp (props c) ''readOnly'') (getp prevProps ''readOnly'')
      then [ReadOnlySet e (getp (props c) ''readOnly'')] else [])"
  by (simp add: updateReadOnly_def setEditorReadOnly_def emit_def)

lemma componentDidUpdate_pushes:
  assumes "componentDidUpdate c prevProps prevState = Inr c'"
  shows "\<exists>evs. trace c' = trace c @ evs \<and>
           (\<forall>i v. ValuePushed i v \<in> set evs \<longrightarrow>
              hasp (props c) ''value'' \<and> editor c = Some i \<and>
              v = coalesce (getp (props c) ''value'') (JStr []) \<and>
              \<not> isEqualValue v (stateValue prevState))"
proof (cases "editor c")
  case None
  with assms have "c' = c"
    by (simp add: componentDidUpdate_def)
  then show ?thesis
    by simp
next
  case (Some e)
  from assms Some obtain c1 c2 where
    s1: "snapshotAndDestroy c e prevProps = Inr c1" and
    s2: "reinstantiateAndRestore c1 e prevState = Inr c2" and
    c': "c' = updateReadOnly (pushValue c2 e prevState) e prevProps"
    by (auto simp: componentDidUpdate_def split: sum.splits)
  from snapshotAndDestroy_effect [OF s1] obtain evs1 where
    p1: "props c1 = props c" and t1: "trace c1 = trace c @ evs1" and
    n1: "\<forall>i v. ValuePushed i v \<notin> set evs1"
    by blast
  from reinstantiateAndRestore_effect [OF s2] obtain evs2 where
    p2: "props c2 = props c1" and t2: "trace c2 = trace c1 @ evs2" and
    n2: "\<forall>i v. ValuePushed i v \<notin> set evs2"
    by blast
  let ?v = "coalesce (getp (props c) ''value'') (JStr [])"
  let ?push = "if hasp (props c) ''value'' \<and> \<not> isEqualValue ?v (stateValue prevState)
      then [ValuePushed e ?v] else []"
  let ?ro = "if hasp (props c) ''readOnly'' \<and>
         \<not> strictEq (getp (props c) ''readOnly'') (getp prevProps ''readOnly'')
      then [ReadOnlySet e (getp (props c) ''readOnly'')] else []"
  have t: "trace c' = trace c @ (evs1 @ evs2 @ ?push @ ?ro)"
    using c' t1 t2 p1 p2 pushValue_effect [of c2 e prevState]
      updateReadOnly_effect [of "pushValue c2 e prevState" e prevProps]
    by simp
  have "\<forall>i v. ValuePushed i v \<in> set (evs1 @ evs2 @ ?push @ ?ro) \<longrightarrow>
      hasp (props c) ''value'' \<and> editor c = Some i \<and> v = ?v \<and>
      \<not> isEqualValue v (stateValue prevState)"
    using n1 n2 Some by auto
  with t show ?thesis
    by blast
qed

lemma coalesce_not_nullish: "\<not> nullish b \<Longrightarrow> \<not> nullish (coalesce a b)"
  by (simp add: coalesce_def)

text \<open>
  C10. A component constructed with neither \<open>value\<close> nor \<open>defaultValue\<close> tracks the
  empty string, and whatever it is constructed with, the value it tracks at first, the
  one loaded at mount, is neither \<open>null\<close> nor \<open>undefined\<close>. In the post-commit pass a nullish \<open>value\<close> prop stands for the empty
  string in the comparison with the previous tracked value and in the push, and
  whatever a pass pushes is the coerced value: never \<open>null\<close>, never \<open>undefined\<close>.
\<close>

theorem value_defaults_to_empty_string:
  "(\<not> hasp p ''value'' \<and> \<not> hasp p ''defaultValue'' \<longrightarrow>
      stateValue (state (constructor p)) = JStr []) \<and>
   \<not> nullish (stateValue (state (constructor p))) \<and>
   (hasp (props c) ''value'' \<and> nullish (getp (props c) ''value'') \<longrightarrow>
      pushValue c e prevState =
        (if isEqualValue (JStr []) (stateValue prevState) then c
         else setEditorContents c e (JStr []))) \<and>
   (componentDidUpdate c prevProps prevState = Inr c' \<longrightarrow>
      (\<forall>i v. ValuePushed i v \<in> set (newEvents c c') \<longrightarrow>
         v = coalesce (getp (props c) ''value'') (JStr []) \<and> \<not> nullish v))"
proof (intro conjI impI)
  assume "\<not> hasp p ''value'' \<and> \<not> hasp p ''defaultValue''"
  then show "stateValue (state (constructor p)) = JStr []"
    by (simp add: constructor_def initial_def isControlled_def hasp_def getp_def coalesce_def
        Let_def)
next
  show "\<not> nullish (stateValue (state (constructor p)))"
    by (simp add: constructor_def initial_def coalesce_not_nullish Let_def)
next
  assume "hasp (props c) ''value'' \<and> nullish (getp (props c) ''value'')"
  then show "pushValue c e prevState =
        (if isEqualValue (JStr []) (stateValue prevState) then c
         else setEditorContents c e (JStr []))"
    by (simp add: pushValue_def coalesce_def Let_def)
next
  assume "componentDidUpdate c prevProps prevState = Inr c'"
  from componentDidUpdate_pushes [OF this] obtain evs where
    t: "trace c' = trace c @ evs" and
    e: "\<forall>i v. ValuePushed i v \<in> set evs \<longrightarrow> v = coalesce (getp (props c) ''value'') (JStr [])"
    by blast
  have n: "newEvents c c' = evs"
    using t by (simp add: newEvents_def)
  show "\<forall>i v. ValuePushed i v \<in> set (newEvents c c') \<longrightarrow>
         v = coalesce (getp (props c) ''value'') (JStr []) \<and> \<not> nullish v"
    using e n coalesce_not_nullish [of "JStr []" "getp (props c) ''value''"] by auto
qed

text \<open>
  No value at construction gives the empty string; a controlled editor that receives
  \<open>null\<close> while it tracks \<open><p>a</p>\<close> is pushed the empty string.
\<close>

theorem value_defaults_to_empty_string_witness:
  "stateValue (state (constructor selectionProps)) = JStr [] \<and>
   nullish (getp nullProps ''value'') \<and>
   pushValue ((mounted (controlledProps 1 1 ''<p>a</p>''))\<lparr>props := nullProps\<rparr>) 0
       (state (mounted (controlledProps 1 1 ''<p>a</p>''))) =
     setEditorContents ((mounted (controlledProps 1 1 ''<p>a</p>''))\<lparr>props := nullProps\<rparr>) 0
       (JStr []) \<and>
   (\<exists>c'. componentDidUpdate ((mounted (controlledProps 1 1 ''<p>a</p>''))\<lparr>props := nullProps\<rparr>)
            (controlledProps 1 1 ''<p>a</p>'')
            (state (mounted (controlledProps 1 1 ''<p>a</p>''))) = Inr c' \<and>
         ValuePushed 0 (JStr []) \<in> set (newEvents
            ((mounted (controlledProps 1 1 ''<p>a</p>''))\<lparr>props := nullProps\<rparr>) c'))"
proof -
  let ?m = "mounted (controlledProps 1 1 ''<p>a</p>'')"
  let ?c = "?m\<lparr>props := nullProps\<rparr>"
  have h1: "\<not> hasp selectionProps ''value'' \<and> \<not> hasp selectionProps ''defaultValue''"
    by (simp add: selectionProps_def hasp_def)
  have h2: "hasp (props ?c) ''value'' \<and> nullish (getp (props ?c) ''value'')"
    by (simp add: nullProps_def hasp_def getp_def)
  have n: "nullish (getp nullProps ''value'')"
    by (simp add: nullProps_def getp_def)
  have ne: "\<not> isEqualValue (JStr []) (stateValue (state ?m))"
    by (simp add: mounted_controlled isEqualValue_def isDelta_def)
  have ed: "editor ?c = Some 0" and g: "generation (state ?c) = generation (state ?m)"
    by (simp_all add: mounted_controlled)
  have nr: "\<not> shouldComponentRegenerate ?c (controlledProps 1 1 ''<p>a</p>'')"
    by (simp add: shouldComponentRegenerate_def someDiffers_def dirtyProps_def nullProps_def
        controlledProps_def getp_def)
  have r: "componentDidUpdate ?c (controlledProps 1 1 ''<p>a</p>'') (state ?m) =
      Inr (updateReadOnly (pushValue ?c 0 (state ?m)) 0 (controlledProps 1 1 ''<p>a</p>''))"
    by (rule componentDidUpdate_plain [OF ed nr g])
  let ?c' = "updateReadOnly (pushValue ?c 0 (state ?m)) 0 (controlledProps 1 1 ''<p>a</p>'')"
  from value_defaults_to_empty_string
    [of selectionProps ?c 0 "state ?m" "controlledProps 1 1 ''<p>a</p>''" ?c'] h1 h2 ne r
  have a: "stateValue (state (constructor selectionProps)) = JStr []"
    and b: "pushValue ?c 0 (state ?m) = setEditorContents ?c 0 (JStr [])"
    by simp_all
  have "trace ?c' = trace ?c @ [ValuePushed 0 (JStr [])]"
    using b by (simp add: updateReadOnly_def setEditorContents_def emit_def nullProps_def
        hasp_def)
  then have "ValuePushed 0 (JStr []) \<in> set (newEvents ?c ?c')"
    by (simp add: newEvents_def)
  with a b n r show ?thesis
    by blast
qed

text \<open>
  C6 fails on the code. The user has typed \<open><p>b</p>\<close> into a controlled editor, so
  that \<open><p>b</p>\<close> is the tracked value, and the parent goes on passing \<open><p>a</p>\<close>,
  with a new \<open>onChange\<close> closure. The update is taken, the incoming value differs
  from the tracked value, and the pass changes nothing but props and state: the editor
  is pushed nothing. The pass compares the incoming value with the value of the
  previous state, where the comment above the comparison has the content overridden
  whenever the value differs from the current state.
\<close>

theorem push_ignores_current_tracked_value:
  "editor edited = Some 0 \<and>
   shouldComponentUpdate edited (controlledProps 2 1 ''<p>a</p>'') (nextState edited)
     = Inr True \<and>
   updateComponent edited (controlledProps 2 1 ''<p>a</p>'') =
     Inr (edited\<lparr>props := controlledProps 2 1 ''<p>a</p>'', state := nextState edited,
            pending := []\<rparr>) \<and>
   hasp (controlledProps 2 1 ''<p>a</p>'') ''value'' \<and>
   stateValue (nextState edited) = JStr ''<p>b</p>'' \<and>
   \<not> isEqualValue (coalesce (getp (controlledProps 2 1 ''<p>a</p>'') ''value'') (JStr []))
        (stateValue (nextState edited))"
  by (simp add: edited_def handler_defs mounted_def mountedArea_def controlledProps_def
      typedDelta_def typedView_def lifecycle_defs quill_defs helper_defs Let_def)

text \<open>Without a \<open>value\<close> prop no post-commit pass, of whatever kind, pushes a value.\<close>

lemma selfmanaged_never_pushes:
  assumes "\<not> hasp (props c) ''value''"
    and "componentDidUpdate c prevProps prevState = Inr c'"
  shows "ValuePushed i v \<notin> set (newEvents c c')"
proof -
  from componentDidUpdate_pushes [OF assms(2)] obtain evs where
    t: "trace c' = trace c @ evs" and
    e: "\<forall>i v. ValuePushed i v \<in> set evs \<longrightarrow> hasp (props c) ''value''"
    by blast
  have "newEvents c c' = evs"
    using t by (simp add: newEvents_def)
  with e assms(1) show ?thesis
    by auto
qed

text \<open>
  What the push does in a pass that starts with a live instance and regenerates
  nothing: no key of \<open>dirtyProps\<close> differs and the generation is the previous one. With
  a \<open>value\<close> prop, the value, \<open>null\<close> and \<open>undefined\<close> read as the empty string, is
  pushed into that instance exactly when it differs, for the Value Synchronizer, from
  the value tracked by the previous state; an equal value leaves the document of the
  instance as it was.
\<close>

lemma value_push_in_plain_update:
  assumes "editor c = Some e"
    and "\<not> shouldComponentRegenerate c prevProps"
    and "generation (state c) = generation prevState"
    and "v = coalesce (getp (props c) ''value'') (JStr [])"
  shows "\<exists>c'. componentDidUpdate c prevProps prevState = Inr c' \<and> editor c' = Some e \<and>
           (hasp (props c) ''value'' \<longrightarrow>
              (ValuePushed e v \<in> set (newEvents c c') \<longleftrightarrow>
                 \<not> isEqualValue v (stateValue prevState)) \<and>
              (\<not> isEqualValue v (stateValue prevState) \<longrightarrow> contents (quills c' e) = v) \<and>
              (isEqualValue v (stateValue prevState) \<longrightarrow>
                 contents (quills c' e) = contents (quills c e))) \<and>
           (\<not> hasp (props c) ''value'' \<longrightarrow>
              (\<forall>i w. ValuePushed i w \<notin> set (newEvents c c')) \<and>
              contents (quills c' e) = contents (quills c e))"
proof -
  let ?c' = "updateReadOnly (pushValue c e prevState) e prevProps"
  have r: "componentDidUpdate c prevProps prevState = Inr ?c'"
    by (rule componentDidUpdate_plain [OF assms(1-3)])
  have "editor ?c' = Some e \<and>
           (hasp (props c) ''value'' \<longrightarrow>
              (ValuePushed e v \<in> set (newEvents c ?c') \<longleftrightarrow>
                 \<not> isEqualValue v (stateValue prevState)) \<and>
              (\<not> isEqualValue v (stateValue prevState) \<longrightarrow> contents (quills ?c' e) = v) \<and>
              (isEqualValue v (stateValue prevState) \<longrightarrow>
                 contents (quills ?c' e) = contents (quills c e))) \<and>
           (\<not> hasp (props c) ''value'' \<longrightarrow>
              (\<forall>i w. ValuePushed i w \<notin> set (newEvents c ?c')) \<and>
              contents (quills ?c' e) = contents (quills c e))"
    using assms(1,4)
    by (simp add: updateReadOnly_def pushValue_def setEditorContents_def setEditorReadOnly_def
        emit_def newEvents_def Let_def)
  with r show ?thesis
    by blast
qed

text \<open>
  The parent of a controlled editor that tracks \<open><p>a</p>\<close> passes \<open><p>b</p>\<close>: it is
  pushed. It passes \<open><p>a</p>\<close> again: nothing is pushed.
\<close>

lemma value_push_in_plain_update_example:
  "(\<exists>c'. componentDidUpdate
            ((mounted (controlledProps 1 1 ''<p>a</p>''))
               \<lparr>props := controlledProps 2 1 ''<p>b</p>''\<rparr>)
            (controlledProps 1 1 ''<p>a</p>'')
            (state (mounted (controlledProps 1 1 ''<p>a</p>''))) = Inr c' \<and>
         editor c' = Some 0 \<and>
         ValuePushed 0 (JStr ''<p>b</p>'') \<in> set (newEvents
            ((mounted (controlledProps 1 1 ''<p>a</p>''))
               \<lparr>props := controlledProps 2 1 ''<p>b</p>''\<rparr>) c') \<and>
         contents (quills c' 0) = JStr ''<p>b</p>'') \<and>
   (\<exists>c'. componentDidUpdate
            ((mounted (controlledProps 1 1 ''<p>a</p>''))
               \<lparr>props := controlledProps 2 1 ''<p>a</p>''\<rparr>)
            (controlledProps 1 1 ''<p>a</p>'')
            (state (mounted (controlledProps 1 1 ''<p>a</p>''))) = Inr c' \<and>
         ValuePushed 0 (JStr ''<p>a</p>'') \<notin> set (newEvents
            ((mounted (controlledProps 1 1 ''<p>a</p>''))
               \<lparr>props := controlledProps 2 1 ''<p>a</p>''\<rparr>) c'))"
proof -
  let ?m = "mounted (controlledProps 1 1 ''<p>a</p>'')"
  let ?b = "?m\<lparr>props := controlledProps 2 1 ''<p>b</p>''\<rparr>"
  let ?a = "?m\<lparr>props := controlledProps 2 1 ''<p>a</p>''\<rparr>"
  have ed: "editor ?b = Some 0" "editor ?a = Some 0"
    and g: "generation (state ?b) = generation (state ?m)"
      "generation (state ?a) = generation (state ?m)"
    by (simp_all add: mounted_controlled)
  have nr: "\<not> shouldComponentRegenerate ?b (controlledProps 1 1 ''<p>a</p>'')"
    "\<not> shouldComponentRegenerate ?a (controlledProps 1 1 ''<p>a</p>'')"
    by (simp_all add: shouldComponentRegenerate_def someDiffers_def dirtyProps_def
        controlledProps_def getp_def)
  have vb: "JStr ''<p>b</p>'' = coalesce (getp (props ?b) ''value'') (JStr [])"
    and va: "JStr ''<p>a</p>'' = coalesce (getp (props ?a) ''value'') (JStr [])"
    and hb: "hasp (props ?b) ''value''" and ha: "hasp (props ?a) ''value''"
    by (simp_all add: controlledProps_def getp_def hasp_def coalesce_def)
  have eb: "\<not> isEqualValue (JStr ''<p>b</p>'') (stateValue (state ?m))"
    and ea: "isEqualValue (JStr ''<p>a</p>'') (stateValue (state ?m))"
    by (simp_all add: mounted_controlled isEqualValue_def isDelta_def)
  have first: "\<exists>c'. componentDidUpdate ?b (controlledProps 1 1 ''<p>a</p>'') (state ?m) = Inr c' \<and>
         editor c' = Some 0 \<and>
         ValuePushed 0 (JStr ''<p>b</p>'') \<in> set (newEvents ?b c') \<and>
         contents (quills c' 0) = JStr ''<p>b</p>''"
    using value_push_in_plain_update [OF ed(1) nr(1) g(1) vb] hb eb
    by blast
  have second: "\<exists>c'. componentDidUpdate ?a (controlledProps 1 1 ''<p>a</p>'') (state ?m) = Inr c' \<and>
         ValuePushed 0 (JStr ''<p>a</p>'') \<notin> set (newEvents ?a c')"
    using value_push_in_plain_update [OF ed(2) nr(2) g(2) va] ha ea
    by blast
  from first second show ?thesis
    by blast
qed

section \<open>Regeneration\<close>

lemma mounted_snow:
  "props (mounted snowProps) = snowProps \<and>
   state (mounted snowProps) =
     \<lparr>generation = 0, stateValue = JStr ''hello'', stateSelection = JNull\<rparr> \<and>
   pending (mounted snowProps) = [] \<and>
   editor (mounted snowProps) = Some 0 \<and>
   allocated (mounted snowProps) = 1 \<and>
   contents (quills (mounted snowProps) 0) = JStr ''hello'' \<and>
   selection (quills (mounted snowProps) 0) = JNull \<and>
   trace (mounted snowProps) = [Created 0 7, ValuePushed 0 (JStr ''hello'')]"
  by (simp add: mounted_def mountedArea_def snowProps_def lifecycle_defs quill_defs
      helper_defs Let_def)

lemma regenerating_step:
  "updateComponent (mounted snowProps) bubbleProps = Inr regenerating"
  by (simp add: regenerating_def mounted_def mountedArea_def snowProps_def bubbleProps_def
      lifecycle_defs quill_defs helper_defs Let_def)

lemma regenerating_facts:
  "props regenerating = bubbleProps \<and>
   state regenerating =
     \<lparr>generation = 0, stateValue = JStr ''hello'', stateSelection = JNull\<rparr> \<and>
   pending regenerating = [SetGeneration 1] \<and>
   editor regenerating = None \<and>
   lastDeltaChangeSet regenerating = JUndefined \<and>
   regenerationSnapshot regenerating = Some (JStr ''hello'', JNull) \<and>
   allocated regenerating = 1 \<and>
   hooked (quills regenerating 0) = False \<and>
   trace regenerating = [Created 0 7, ValuePushed 0 (JStr ''hello''), Unhooked 0]"
  by (simp add: regenerating_def mounted_def mountedArea_def snowProps_def bubbleProps_def
      lifecycle_defs quill_defs helper_defs Let_def)

lemma validate_theme_props:
  "lastDeltaChangeSet c = JUndefined \<Longrightarrow>
   validateProps c bubbleProps = Inr () \<and> validateProps c snowProps = Inr ()"
  by (simp add: bubbleProps_def snowProps_def validateProps_def helper_defs)

lemma regenerated_eq:
  "regenerated = regenerating\<lparr>props := bubbleProps, state := nextState regenerating,
     pending := []\<rparr>"
  using regenerating_facts
  by (simp add: regenerated_def update_without_editor validate_theme_props)

lemma regenerated_step:
  "updateComponent regenerating bubbleProps = Inr regenerated"
  using regenerating_facts
  by (simp add: regenerated_eq update_without_editor validate_theme_props)

lemma regenerated_facts:
  "props regenerated = bubbleProps \<and>
   state regenerated =
     \<lparr>generation = 1, stateValue = JStr ''hello'', stateSelection = JNull\<rparr> \<and>
   pending regenerated = [] \<and>
   editor regenerated = None \<and>
   lastDeltaChangeSet regenerated = JUndefined \<and>
   regenerationSnapshot regenerated = Some (JStr ''hello'', JNull) \<and>
   allocated regenerated = 1 \<and>
   trace regenerated = [Created 0 7, ValuePushed 0 (JStr ''hello''), Unhooked 0]"
  using regenerating_facts by (simp add: regenerated_eq nextState_def)

text \<open>
  C1 fails on the code. The theme of a mounted editor changes. The post-commit pass of
  that update takes the snapshot, queues the next generation and destroys the
  instance. The post-commit pass of the update that follows sees the generation
  changed, and returns at its first line, since there is no instance: no instance is
  constructed, the snapshot is neither restored nor cleared, and nothing is focused.
\<close>

theorem regeneration_never_reinstantiates:
  "editor (mounted snowProps) = Some 0 \<and>
   shouldComponentRegenerate ((mounted snowProps)\<lparr>props := bubbleProps\<rparr>) snowProps \<and>
   updateComponent (mounted snowProps) bubbleProps = Inr regenerating \<and>
   regenerationSnapshot regenerating =
     Some (contents (quills (mounted snowProps) 0), selection (quills (mounted snowProps) 0)) \<and>
   editor regenerating = None \<and>
   updateComponent regenerating bubbleProps = Inr regenerated \<and>
   generation (state regenerated) \<noteq> generation (state regenerating) \<and>
   componentDidUpdate regenerated (props regenerating) (state regenerating) = Inr regenerated \<and>
   editor regenerated = None \<and>
   allocated regenerated = allocated (mounted snowProps) \<and>
   regenerationSnapshot regenerated = regenerationSnapshot regenerating \<and>
   newEvents regenerating regenerated = []"
proof -
  have b: "shouldComponentRegenerate ((mounted snowProps)\<lparr>props := bubbleProps\<rparr>) snowProps"
    by (simp add: shouldComponentRegenerate_def someDiffers_def dirtyProps_def snowProps_def
        bubbleProps_def getp_def)
  have d: "componentDidUpdate regenerated (props regenerating) (state regenerating) =
      Inr regenerated"
    using regenerated_facts by (simp add: componentDidUpdate_without_editor)
  show ?thesis
    using b d regenerating_step regenerated_step
    by (simp add: mounted_snow regenerating_facts regenerated_facts newEvents_def)
qed

text \<open>
  The restoring block itself, were it reached with an instance: a pass that both
  regenerates and finds the generation changed creates instance 1, and then restores
  the snapshot into \<open>editor\<close>, which is instance 0, the one just destroyed. The new
  instance keeps its blank document and is not focused.
\<close>

lemma restore_targets_destroyed_instance:
  "componentDidUpdate ((mounted snowProps)\<lparr>props := bubbleProps\<rparr>) snowProps
     \<lparr>generation = - 1, stateValue = JStr ''hello'', stateSelection = JNull\<rparr> =
     Inr (projr (componentDidUpdate ((mounted snowProps)\<lparr>props := bubbleProps\<rparr>) snowProps
       \<lparr>generation = - 1, stateValue = JStr ''hello'', stateSelection = JNull\<rparr>)) \<and>
   editor (projr (componentDidUpdate ((mounted snowProps)\<lparr>props := bubbleProps\<rparr>) snowProps
       \<lparr>generation = - 1, stateValue = JStr ''hello'', stateSelection = JNull\<rparr>)) = Some 1 \<and>
   contents (quills (projr (componentDidUpdate ((mounted snowProps)\<lparr>props := bubbleProps\<rparr>)
       snowProps \<lparr>generation = - 1, stateValue = JStr ''hello'', stateSelection = JNull\<rparr>)) 1)
     = blankDocument \<and>
   trace (projr (componentDidUpdate ((mounted snowProps)\<lparr>props := bubbleProps\<rparr>) snowProps
       \<lparr>generation = - 1, stateValue = JStr ''hello'', stateSelection = JNull\<rparr>)) =
     [Created 0 7, ValuePushed 0 (JStr ''hello''), Unhooked 0, Created 1 7,
      ContentsSet 0 (JStr ''hello''), FocusCalled 0]"
  by (simp add: mounted_def mountedArea_def snowProps_def bubbleProps_def lifecycle_defs
      quill_defs helper_defs Let_def)

text \<open>
  What holds of the generation whatever the component: a post-commit pass queues the
  next generation exactly when it starts with an instance and a key of \<open>dirtyProps\<close>
  differs, and an update moves the generation by one or not at all.
\<close>

lemma componentDidUpdate_pending:
  assumes "componentDidUpdate c prevProps prevState = Inr c'"
  shows "state c' = state c \<and>
         pending c' = pending c @
           (if editor c \<noteq> None \<and> shouldComponentRegenerate c prevProps
            then [SetGeneration (generation (state c) + 1)] else [])"
proof (cases "editor c")
  case None
  with assms show ?thesis
    by (simp add: componentDidUpdate_def)
next
  case (Some e)
  from assms Some obtain c1 c2 where
    s1: "snapshotAndDestroy c e prevProps = Inr c1" and
    s2: "reinstantiateAndRestore c1 e prevState = Inr c2" and
    c': "c' = updateReadOnly (pushValue c2 e prevState) e prevProps"
    by (auto simp: componentDidUpdate_def split: sum.splits)
  have 1: "state c1 = state c \<and> pending c1 = pending c @
      (if shouldComponentRegenerate c prevProps
       then [SetGeneration (generation (state c) + 1)] else [])"
    using s1
    by (auto simp: snapshotAndDestroy_def destroyEditor_def unhookEditor_def setState_def
        emit_def Let_def split: if_splits option.splits)
  have 2: "state c2 = state c1 \<and> pending c2 = pending c1"
    using s2
    by (auto simp: reinstantiateAndRestore_def instantiateEditor_def createEditor_def
        quillSetContents_def quillSetSelection_def quillFocus_def emit_def Let_def
        split: if_splits option.splits sum.splits prod.splits)
  have 3: "state c' = state c2 \<and> pending c' = pending c2"
    unfolding c'
    by (simp add: updateReadOnly_def pushValue_def setEditorContents_def setEditorReadOnly_def
        emit_def Let_def)
  from 1 2 3 Some show ?thesis
    by simp
qed

lemma updateComponent_generation:
  assumes "updateComponent c nextProps = Inr c'"
  shows "generation (nextState c') = generation (nextState c) \<or>
         generation (nextState c') = generation (nextState c) + 1"
proof -
  let ?c1 = "c\<lparr>props := nextProps, state := nextState c, pending := []\<rparr>"
  from assms have "componentDidUpdate ?c1 (props c) (state c) = Inr c' \<or> c' = ?c1"
    by (auto simp: updateComponent_def Let_def split: sum.splits if_splits)
  then show ?thesis
  proof
    assume "componentDidUpdate ?c1 (props c) (state c) = Inr c'"
    from componentDidUpdate_pending [OF this] show ?thesis
      by (auto simp: nextState_def)
  next
    assume "c' = ?c1"
    then show ?thesis
      by (simp add: nextState_def)
  qed
qed

text \<open>Once the instance is gone, no update brings one back.\<close>

lemma update_keeps_no_editor:
  assumes "editor c = None" and "updateComponent c nextProps = Inr c'"
  shows "editor c' = None \<and> allocated c' = allocated c \<and> trace c' = trace c \<and>
         regenerationSnapshot c' = regenerationSnapshot c"
  using assms
  by (auto simp: updateComponent_def componentDidUpdate_def Let_def
      split: sum.splits if_splits)

lemma reverted_eq:
  "reverted = regenerated\<lparr>props := snowProps, state := nextState regenerated, pending := []\<rparr>"
  using regenerated_facts
  by (simp add: reverted_def update_without_editor validate_theme_props)

text \<open>
  C8 fails on the code. After the change of theme the generation has gone from 0 to 1
  and the instance has been destroyed once, but no instance has been created since:
  the only creation in the trace is the one of the mount. A further change of theme is
  taken as an update, and neither moves the generation nor destroys or creates
  anything, for want of an instance.
\<close>

theorem regeneration_destroys_without_creating:
  "generation (state (mounted snowProps)) = 0 \<and>
   updateComponent (mounted snowProps) bubbleProps = Inr regenerating \<and>
   updateComponent regenerating bubbleProps = Inr regenerated \<and>
   generation (state regenerated) = 1 \<and>
   trace (mounted snowProps) = [Created 0 7, ValuePushed 0 (JStr ''hello'')] \<and>
   trace regenerated = [Created 0 7, ValuePushed 0 (JStr ''hello''), Unhooked 0] \<and>
   editor regenerated = None \<and>
   someDiffers dirtyProps snowProps (props regenerated) \<and>
   updateComponent regenerated snowProps = Inr reverted \<and>
   generation (nextState reverted) = 1 \<and>
   trace reverted = trace regenerated \<and>
   editor reverted = None"
proof -
  have s: "someDiffers dirtyProps snowProps (props regenerated)"
    using regenerated_facts
    by (simp add: someDiffers_def dirtyProps_def snowProps_def bubbleProps_def getp_def)
  have u: "updateComponent regenerated snowProps = Inr reverted"
    using regenerated_facts
    by (simp add: reverted_eq update_without_editor validate_theme_props)
  have r: "generation (nextState reverted) = 1 \<and> trace reverted = trace regenerated \<and>
      editor reverted = None"
    using regenerated_facts by (simp add: reverted_eq nextState_def)
  show ?thesis
    using s u r regenerating_step regenerated_step
    by (simp add: mounted_snow regenerated_facts)
qed

end
